theory Spec2Isabelle
  imports Complex_Main "HOL-Library.Multiset" "HOL-Library.AList"
begin

section \<open>Double-precision numbers\<close>

text \<open>
  A JavaScript \<^verbatim>\<open>number\<close> is an IEEE-754 binary64 value. A finite one is modelled as the real
  number it denotes, and every arithmetic operation of the code as the exact operation followed
  by rounding to the nearest binary64 value, ties to the even significand (\<open>rnd\<close>): the
  spacing of the values around \<open>x\<close> is \<open>2\<close> to the power \<open>ulpExponent x\<close>, 52 below the
  binary exponent of \<open>x\<close> and at least -1074 (subnormal range). The two zeros are one value
  here: the code never tells them apart (the key string of a cell prints both as \<^verbatim>\<open>0\<close>).
  Infinities and NaN are not modelled: no operation of the code produces them from coordinates
  in the ranges of the data model. \<^verbatim>\<open>Math.sqrt\<close> and \<^verbatim>\<open>Math.pow\<close> with exponent 2 are
  taken as correctly rounded.
\<close>

definition roundTiesToEven :: "real \<Rightarrow> int" where
  "roundTiesToEven y =
     (let f = \<lfloor>y\<rfloor>
      in if y - of_int f < 1 / 2 then f
         else if 1 / 2 < y - of_int f then f + 1
         else if even f then f else f + 1)"

definition ulpExponent :: "real \<Rightarrow> int" where
  "ulpExponent x = max (\<lfloor>log 2 \<bar>x\<bar>\<rfloor> - 52) (- 1074)"

definition rnd :: "real \<Rightarrow> real" where
  "rnd x =
     (if x = 0 then 0
      else of_int (roundTiesToEven (x / 2 powi ulpExponent x)) * 2 powi ulpExponent x)"

text \<open>The value of a decimal literal, as in \<^verbatim>\<open>0.1\<close>.\<close>

definition D :: "real \<Rightarrow> real" where
  "D x = rnd x"

text \<open>The operators \<^verbatim>\<open>/\<close>, \<^verbatim>\<open>*\<close>, \<^verbatim>\<open>+\<close>, \<^verbatim>\<open>-\<close> and the functions of \<^verbatim>\<open>Math\<close> that the code uses.\<close>

definition ddiv :: "real \<Rightarrow> real \<Rightarrow> real" where
  "ddiv x y = rnd (x / y)"

definition dmul :: "real \<Rightarrow> real \<Rightarrow> real" where
  "dmul x y = rnd (x * y)"

definition dadd :: "real \<Rightarrow> real \<Rightarrow> real" where
  "dadd x y = rnd (x + y)"

definition dsub :: "real \<Rightarrow> real \<Rightarrow> real" where
  "dsub x y = rnd (x - y)"

definition dfloor :: "real \<Rightarrow> real" where
  "dfloor x = of_int \<lfloor>x\<rfloor>"

definition dpow :: "real \<Rightarrow> nat \<Rightarrow> real" where
  "dpow x n = rnd (x ^ n)"

definition dsqrt :: "real \<Rightarrow> real" where
  "dsqrt x = rnd (sqrt x)"

section \<open>Data model\<close>

text \<open>
  The types of \<^verbatim>\<open>src/types/hazard.ts\<close> and of \<^verbatim>\<open>src/components/HazardMap.tsx\<close>. Coordinates
  are binary64 values. Array lengths and the numbers computed from them are naturals: they
  are exact in double precision.
\<close>

datatype Severity = Low | Medium | High | Critical

datatype ReporterRole = Citizen | Volunteer | Official | Researcher | Fisherman

datatype Status = Pending | Verified | Rejected

record Location =
  lat :: real
  lng :: real
  address :: "string option"

record HazardReport =
  report_id :: "string option"
  reporterName :: string
  reporterRole :: ReporterRole
  hazardType :: string
  severity :: Severity
  location :: Location
  description :: string
  mediaUrls :: "string list option"
  status :: Status
  createdAt :: int
  updatedAt :: int
  userId :: string
  userEmail :: string

text \<open>\<^verbatim>\<open>interface Hotspot\<close> (HazardMap.tsx, lines 40-46).\<close>

record Hotspot =
  hotspot_lat :: real
  hotspot_lng :: real
  intensity :: nat
  radius :: nat
  reportCount :: nat

text \<open>
  A value of the local object \<^verbatim>\<open>grid\<close> (line 204):
  \<^verbatim>\<open>{ lat: number, lng: number, reports: HazardReport[] }\<close>.
\<close>

record Cell =
  cell_lat :: real
  cell_lng :: real
  cell_reports :: "HazardReport list"

text \<open>
  The object \<^verbatim>\<open>grid\<close> itself. Its keys are the strings \<^verbatim>\<open>`${gridLat},${gridLng}`\<close>:
  two such strings are equal exactly when the two pairs of numbers are, and none of them is
  an array index, so the object enumerates its entries in insertion order. It is modelled as
  an association list in insertion order, keyed by the pair of numbers.
\<close>

type_synonym Grid = "((real \<times> real) \<times> Cell) list"

text \<open>The component state that the clustering reads and writes (lines 113 and 117).\<close>

record MapState =
  hotspots :: "Hotspot list"
  selectedReport :: "HazardReport option"

text \<open>Reading a property of \<^verbatim>\<open>undefined\<close> is the one run-time error the code could raise.\<close>

datatype error = TypeError

section \<open>calculateHotspots (HazardMap.tsx, lines 196-234)\<close>

definition gridSize :: real where
  "gridSize = D 0.1"

definition minReports :: nat where
  "minReports = 2"

text \<open>Lines 207-209: the two floored coordinates of a report and the key built from them.\<close>

definition gridLat :: "HazardReport \<Rightarrow> real" where
  "gridLat report = dmul (dfloor (ddiv (lat (location report)) gridSize)) gridSize"

definition gridLng :: "HazardReport \<Rightarrow> real" where
  "gridLng report = dmul (dfloor (ddiv (lng (location report)) gridSize)) gridSize"

definition cellKey :: "HazardReport \<Rightarrow> real \<times> real" where
  "cellKey report = (gridLat report, gridLng report)"

text \<open>
  Lines 206-215, the body of \<^verbatim>\<open>reports.forEach\<close>: create the cell when the key is new,
  then push the report onto the cell found under the key. \<^verbatim>\<open>grid[key].reports\<close> raises a
  TypeError when \<^verbatim>\<open>grid[key]\<close> is undefined.
\<close>

definition addReport :: "Grid \<Rightarrow> HazardReport \<Rightarrow> error + Grid" where
  "addReport grid report =
     (let key = cellKey report;
          grid1 = (if map_of grid key = None
                   then grid @ [(key, \<lparr>cell_lat = dadd (gridLat report) (ddiv gridSize 2),
                                       cell_lng = dadd (gridLng report) (ddiv gridSize 2),
                                       cell_reports = []\<rparr>)]
                   else grid)
      in case map_of grid1 key of
           None \<Rightarrow> Inl TypeError
         | Some cell \<Rightarrow>
             Inr (AList.update key (cell\<lparr>cell_reports := cell_reports cell @ [report]\<rparr>) grid1))"

fun forEachReport :: "Grid \<Rightarrow> HazardReport list \<Rightarrow> error + Grid" where
  "forEachReport grid [] = Inr grid"
| "forEachReport grid (report # rest) =
     (case addReport grid report of
        Inl e \<Rightarrow> Inl e
      | Inr grid' \<Rightarrow> forEachReport grid' rest)"

text \<open>
  Lines 220-221: the local \<^verbatim>\<open>severity\<close> computed for a cell that has enough reports. Nothing
  reads it: the object pushed at lines 223-229 has no field for it.
\<close>

definition dominantSeverity :: "HazardReport list \<Rightarrow> Severity" where
  "dominantSeverity rs =
     (if list_ex (\<lambda>r. severity r = Critical) rs then Critical
      else if list_ex (\<lambda>r. severity r = High) rs then High
      else Medium)"

text \<open>Lines 218-231, the body of \<^verbatim>\<open>Object.values(grid).forEach\<close>.\<close>

definition pushCell :: "Hotspot list \<Rightarrow> Cell \<Rightarrow> Hotspot list" where
  "pushCell hs cell =
     (if length (cell_reports cell) \<ge> minReports
      then (let severity = dominantSeverity (cell_reports cell)
            in hs @ [\<lparr>hotspot_lat = cell_lat cell,
                      hotspot_lng = cell_lng cell,
                      intensity = length (cell_reports cell),
                      radius = min (length (cell_reports cell) * 2000) 10000,
                      reportCount = length (cell_reports cell)\<rparr>])
      else hs)"

text \<open>
  Lines 199-231: the local array \<^verbatim>\<open>hotspots\<close> as it stands when line 233 hands it to
  \<^verbatim>\<open>setHotspots\<close>.
\<close>

definition newHotspots :: "HazardReport list \<Rightarrow> error + Hotspot list" where
  "newHotspots reports =
     (case forEachReport [] reports of
        Inl e \<Rightarrow> Inl e
      | Inr grid \<Rightarrow> Inr (foldl pushCell [] (map snd grid)))"

definition setHotspots :: "Hotspot list \<Rightarrow> MapState \<Rightarrow> MapState" where
  "setHotspots hs st = st\<lparr>hotspots := hs\<rparr>"

text \<open>
  The whole function, run on the \<^verbatim>\<open>reports\<close> property in a component state: line 197
  returns before anything is computed or written.
\<close>

definition calculateHotspots :: "HazardReport list \<Rightarrow> MapState \<Rightarrow> error + MapState" where
  "calculateHotspots reports st =
     (if length reports = 0 then Inr st
      else case newHotspots reports of
             Inl e \<Rightarrow> Inl e
           | Inr hs \<Rightarrow> Inr (setHotspots hs st))"

text \<open>The state of a freshly mounted component (lines 113 and 117).\<close>

definition initialState :: MapState where
  "initialState = \<lparr>hotspots = [], selectedReport = None\<rparr>"

section \<open>nearbyHotspot (HazardMap.tsx, lines 486-492)\<close>

definition distance :: "Hotspot \<Rightarrow> HazardReport \<Rightarrow> real" where
  "distance hotspot selected =
     dsqrt (dadd (dpow (dsub (hotspot_lat hotspot) (lat (location selected))) 2)
                 (dpow (dsub (hotspot_lng hotspot) (lng (location selected))) 2))"

definition nearbyHotspot :: "Hotspot list \<Rightarrow> HazardReport \<Rightarrow> Hotspot option" where
  "nearbyHotspot hs selected = find (\<lambda>hotspot. distance hotspot selected < D 0.05) hs"

section \<open>Sample inputs\<close>

definition sampleReport :: "real \<Rightarrow> real \<Rightarrow> Severity \<Rightarrow> HazardReport" where
  "sampleReport la lo sev =
     \<lparr>report_id = None, reporterName = ''Asha'', reporterRole = Citizen,
      hazardType = ''High Waves'', severity = sev,
      location = \<lparr>lat = la, lng = lo, address = None\<rparr>,
      description = ''swell'', mediaUrls = None, status = Pending,
      createdAt = 0, updatedAt = 0, userId = ''u1'', userEmail = ''asha@example.org''\<rparr>"

definition scenarioA :: "HazardReport list" where
  "scenarioA =
     [sampleReport (D 12.95) (D 77.55) Critical, sampleReport (D 12.96) (D 77.56) Low]"

definition scenarioALow :: "HazardReport list" where
  "scenarioALow =
     [sampleReport (D 12.95) (D 77.55) Low, sampleReport (D 12.96) (D 77.56) Low]"

definition hotspotA :: Hotspot where
  "hotspotA = \<lparr>hotspot_lat = D 12.950000000000001, hotspot_lng = D 77.55, intensity = 2,
               radius = 4000, reportCount = 2\<rparr>"

definition gridA :: Grid where
  "gridA = [((D 12.9, D 77.5),
             \<lparr>cell_lat = D 12.950000000000001, cell_lng = D 77.55, cell_reports = scenarioA\<rparr>)]"

definition scenarioC :: "HazardReport list" where
  "scenarioC = replicate 6 (sampleReport (D 12.95) (D 77.55) Low)"

definition gridC :: Grid where
  "gridC = [((D 12.9, D 77.5),
             \<lparr>cell_lat = D 12.950000000000001, cell_lng = D 77.55, cell_reports = scenarioC\<rparr>)]"

definition hotspotC :: Hotspot where
  "hotspotC = \<lparr>hotspot_lat = D 12.950000000000001, hotspot_lng = D 77.55, intensity = 6,
               radius = 10000, reportCount = 6\<rparr>"

definition scenarioTwoCells :: "HazardReport list" where
  "scenarioTwoCells =
     [sampleReport (D 12.95) (D 77.55) High, sampleReport (D 13.05) (D 77.55) Low,
      sampleReport (D 12.96) (D 77.56) Low, sampleReport (D 13.06) (D 77.56) Medium]"

definition scenarioTwoCellsShuffled :: "HazardReport list" where
  "scenarioTwoCellsShuffled =
     [sampleReport (D 13.05) (D 77.55) Low, sampleReport (D 12.95) (D 77.55) High,
      sampleReport (D 13.06) (D 77.56) Medium, sampleReport (D 12.96) (D 77.56) Low]"

definition hotspotB :: Hotspot where
  "hotspotB = \<lparr>hotspot_lat = D 13.05, hotspot_lng = D 77.55, intensity = 2, radius = 4000,
               reportCount = 2\<rparr>"

text \<open>
  Two inputs on which rounding decides the cell: the quotient of 8.1 by 0.1 is
  80.99999999999999, so the report at latitude 8.1 lies in the cell of 8.05 and not in the
  cell of 8.15.
\<close>

definition scenarioRounded :: "HazardReport list" where
  "scenarioRounded =
     [sampleReport (D 8.1) (D 77.55) High, sampleReport (D 8.05) (D 77.56) Low]"

definition gridRounded :: Grid where
  "gridRounded = [((8, D 77.5),
                   \<lparr>cell_lat = D 8.05, cell_lng = D 77.55, cell_reports = scenarioRounded\<rparr>)]"

definition hotspotRounded :: Hotspot where
  "hotspotRounded = \<lparr>hotspot_lat = D 8.05, hotspot_lng = D 77.55, intensity = 2, radius = 4000,
                     reportCount = 2\<rparr>"

definition scenarioSplit :: "HazardReport list" where
  "scenarioSplit =
     [sampleReport (D 8.1) (D 77.55) High, sampleReport (D 8.15) (D 77.56) Low]"

definition hotspotAt :: "real \<Rightarrow> real \<Rightarrow> Hotspot" where
  "hotspotAt la lo = \<lparr>hotspot_lat = la, hotspot_lng = lo, intensity = 2, radius = 4000,
                        reportCount = 2\<rparr>"

section \<open>Notions used to state the properties\<close>

text \<open>The reports of the input that lie in the cell with key \<open>k\<close>, in input order.\<close>

definition cellReports :: "HazardReport list \<Rightarrow> real \<times> real \<Rightarrow> HazardReport list" where
  "cellReports reports k = filter (\<lambda>r. cellKey r = k) reports"

text \<open>The keys of the cells of the grid, in the order in which the first loop creates them.\<close>

fun cellKeysFrom :: "(real \<times> real) list \<Rightarrow> HazardReport list \<Rightarrow> (real \<times> real) list" where
  "cellKeysFrom ks [] = ks"
| "cellKeysFrom ks (r # rest) =
     cellKeysFrom (if cellKey r \<in> set ks then ks else ks @ [cellKey r]) rest"

text \<open>The cell and the grid that the first loop has built once it has seen \<open>reports\<close>.\<close>

definition cellFor :: "HazardReport list \<Rightarrow> real \<times> real \<Rightarrow> Cell" where
  "cellFor reports k =
     \<lparr>cell_lat = dadd (fst k) (ddiv gridSize 2), cell_lng = dadd (snd k) (ddiv gridSize 2),
      cell_reports = cellReports reports k\<rparr>"

definition gridFor :: "HazardReport list \<Rightarrow> (real \<times> real) list \<Rightarrow> Grid" where
  "gridFor reports ks = map (\<lambda>k. (k, cellFor reports k)) ks"

text \<open>The hotspot that the second loop pushes for the cell with key \<open>k\<close>.\<close>

definition hotspotFor :: "HazardReport list \<Rightarrow> real \<times> real \<Rightarrow> Hotspot" where
  "hotspotFor reports k =
     \<lparr>hotspot_lat = dadd (fst k) (ddiv gridSize 2), hotspot_lng = dadd (snd k) (ddiv gridSize 2),
      intensity = length (cellReports reports k),
      radius = min (length (cellReports reports k) * 2000) 10000,
      reportCount = length (cellReports reports k)\<rparr>"

text \<open>The centroid of a non-empty list of reports: the means of their coordinates.\<close>

definition centroid :: "HazardReport list \<Rightarrow> real \<times> real" where
  "centroid rs =
     (sum_list (map (\<lambda>r. lat (location r)) rs) / real (length rs),
      sum_list (map (\<lambda>r. lng (location r)) rs) / real (length rs))"

text \<open>The coordinate ranges of the data model: latitude in [-90, 90], longitude in [-180, 180].\<close>

definition inDataModelRange :: "Location \<Rightarrow> bool" where
  "inDataModelRange loc \<longleftrightarrow> - 90 \<le> lat loc \<and> lat loc \<le> 90 \<and> - 180 \<le> lng loc \<and> lng loc \<le> 180"

section \<open>Evaluating the rounding\<close>

lemma floor_log2_eqI:
  assumes "2 powi k \<le> x" "x < 2 powi (k + 1)"
  shows "\<lfloor>log 2 x\<rfloor> = k"
proof -
  have p: "0 < x" using assms(1) by (smt (verit) zero_less_power_int)
  have e: "(2::real) powr (real_of_int j) = 2 powi j" for j
    by (rule powr_real_of_int') simp_all
  have "2 powr (real_of_int k) \<le> x" "x < 2 powr (real_of_int k + 1)"
    using assms e [of k] e [of "k + 1"] by simp_all
  then show ?thesis
    using p by (simp add: floor_log_eq_powr_iff)
qed

lemma rnd_at:
  "2 powi k \<le> \<bar>x\<bar> \<Longrightarrow> \<bar>x\<bar> < 2 powi (k + 1) \<Longrightarrow>
     rnd x = of_int (roundTiesToEven (x / 2 powi max (k - 52) (- 1074))) *
             2 powi max (k - 52) (- 1074)"
proof -
  assume a: "2 powi k \<le> \<bar>x\<bar>" "\<bar>x\<bar> < 2 powi (k + 1)"
  then have "x \<noteq> 0" by (smt (verit) zero_less_power_int)
  moreover have "ulpExponent x = max (k - 52) (- 1074)"
    using floor_log2_eqI [OF a] by (simp add: ulpExponent_def)
  ultimately show ?thesis by (simp add: rnd_def)
qed

lemma roundTiesToEven_near:
  assumes "of_int m - 1 / 2 < y" "y < of_int m + 1 / 2"
  shows "roundTiesToEven y = m"
proof (cases "of_int m \<le> y")
  case True
  with assms have "\<lfloor>y\<rfloor> = m" by linarith
  with assms show ?thesis by (simp add: roundTiesToEven_def)
next
  case False
  with assms have "\<lfloor>y\<rfloor> = m - 1" by linarith
  with assms False show ?thesis by (simp add: roundTiesToEven_def)
qed

lemma dsqrt_eqI:
  assumes m: "0 < m"
    and lo: "(2 powi K)\<^sup>2 \<le> x" and hi: "x < (2 powi (K + 1))\<^sup>2"
    and below: "(of_int (2 * m - 1) * 2 powi max (K - 52) (- 1074) / 2)\<^sup>2 < x"
    and above: "x < (of_int (2 * m + 1) * 2 powi max (K - 52) (- 1074) / 2)\<^sup>2"
  shows "dsqrt x = of_int m * 2 powi max (K - 52) (- 1074)"
proof -
  let ?u = "(2::real) powi max (K - 52) (- 1074)"
  have u: "0 < ?u" by simp
  have "2 powi K \<le> sqrt x"
    using lo by (rule real_le_rsqrt)
  moreover have "sqrt x < 2 powi (K + 1)"
    using hi by (intro real_less_lsqrt) simp_all
  moreover have "0 \<le> sqrt x"
    using lo by (smt (verit) real_sqrt_ge_zero zero_le_power2)
  ultimately have r: "rnd (sqrt x) = of_int (roundTiesToEven (sqrt x / ?u)) * ?u"
    using rnd_at [of K "sqrt x"] by simp
  have "of_int (2 * m - 1) * ?u / 2 < sqrt x"
    using below by (rule real_less_rsqrt)
  then have a: "of_int m - 1 / 2 < sqrt x / ?u"
    using u by (simp add: field_simps)
  have "sqrt x < of_int (2 * m + 1) * ?u / 2"
    using above m u by (intro real_less_lsqrt) simp_all
  then have b: "sqrt x / ?u < of_int m + 1 / 2"
    using u by (simp add: field_simps)
  show ?thesis
    unfolding dsqrt_def r roundTiesToEven_near [OF a b] ..
qed

lemma rnd_0: "rnd 0 = 0"
  by (simp add: rnd_def)

lemma D_cong: "D x = D x"
  by (rule refl)

section \<open>The grid built by the first loop\<close>

lemma map_of_tabulate:
  "map_of (map (\<lambda>k. (k, f k)) ks) k = (if k \<in> set ks then Some (f k) else None)"
  by (induction ks) auto

lemma update_tabulate:
  "k \<in> set ks \<Longrightarrow> distinct ks \<Longrightarrow>
     AList.update k v (map (\<lambda>j. (j, f j)) ks) = map (\<lambda>j. (j, if j = k then v else f j)) ks"
  by (induction ks) auto

lemma update_snoc_fresh:
  "k \<notin> fst ` set xs \<Longrightarrow> AList.update k v (xs @ [(k, w)]) = xs @ [(k, v)]"
  by (induction xs) auto

lemma map_of_snoc_fresh:
  "k \<notin> fst ` set xs \<Longrightarrow> map_of (xs @ [(k, w)]) k = Some w"
  by (induction xs) auto

lemma cellReports_snoc:
  "cellReports (rs @ [r]) k = (if cellKey r = k then cellReports rs k @ [r] else cellReports rs k)"
  by (simp add: cellReports_def)

lemma cellReports_fresh:
  "k \<notin> cellKey ` set rs \<Longrightarrow> cellReports rs k = []"
  by (auto simp: cellReports_def filter_empty_conv)

lemma addReport_gridFor:
  assumes "set ks = cellKey ` set rs" and "distinct ks"
  shows "addReport (gridFor rs ks) r =
           Inr (gridFor (rs @ [r]) (if cellKey r \<in> set ks then ks else ks @ [cellKey r]))"
proof (cases "cellKey r \<in> set ks")
  case True
  with assms(2) show ?thesis
    by (simp add: addReport_def gridFor_def map_of_tabulate update_tabulate Let_def
        cellFor_def cellReports_snoc)
next
  case False
  with assms have e: "cellReports rs (cellKey r) = []"
    by (simp add: cellReports_fresh)
  have f: "cellKey r \<notin> fst ` set (gridFor rs ks)"
    using False by (auto simp: gridFor_def)
  have n: "map_of (gridFor rs ks) (cellKey r) = None"
    using False by (simp add: gridFor_def map_of_tabulate)
  have a: "addReport (gridFor rs ks) r =
          Inr (gridFor rs ks @ [(cellKey r, \<lparr>cell_lat = dadd (gridLat r) (ddiv gridSize 2),
                 cell_lng = dadd (gridLng r) (ddiv gridSize 2), cell_reports = [r]\<rparr>)])"
    unfolding addReport_def Let_def
    by (simp add: n map_of_snoc_fresh [OF f] update_snoc_fresh [OF f] del: map_of_append)
  have g: "gridFor rs ks = gridFor (rs @ [r]) ks"
    using False by (auto simp: gridFor_def cellFor_def cellReports_snoc)
  have c: "\<lparr>cell_lat = dadd (gridLat r) (ddiv gridSize 2),
            cell_lng = dadd (gridLng r) (ddiv gridSize 2),
            cell_reports = [r]\<rparr> = cellFor (rs @ [r]) (cellKey r)"
    using e by (simp add: cellFor_def cellReports_snoc cellKey_def)
  show ?thesis
    unfolding a c using False g by (simp add: gridFor_def)
qed

lemma cellKeysFrom_distinct_set:
  "distinct ks \<Longrightarrow>
     distinct (cellKeysFrom ks rest) \<and> set (cellKeysFrom ks rest) = set ks \<union> cellKey ` set rest"
  by (induction rest arbitrary: ks) auto

lemma forEachReport_gridFor:
  "distinct ks \<Longrightarrow> set ks = cellKey ` set rs \<Longrightarrow>
     forEachReport (gridFor rs ks) rest = Inr (gridFor (rs @ rest) (cellKeysFrom ks rest))"
proof (induction rest arbitrary: ks rs)
  case Nil
  then show ?case by simp
next
  case (Cons r rest)
  let ?ks = "if cellKey r \<in> set ks then ks else ks @ [cellKey r]"
  have d: "distinct ?ks" using Cons.prems by simp
  have s: "set ?ks = cellKey ` set (rs @ [r])" using Cons.prems by auto
  from Cons.IH [OF d s] addReport_gridFor [of ks rs r] Cons.prems
  show ?case by simp
qed

lemma forEachReport_cellKeys:
  "forEachReport [] reports = Inr (gridFor reports (cellKeysFrom [] reports))"
  using forEachReport_gridFor [of "[]" "[]" reports] by (simp add: gridFor_def)

lemma cellKeys_distinct: "distinct (cellKeysFrom [] reports)"
  using cellKeysFrom_distinct_set [of "[]" reports] by simp

lemma cellKeys_set: "set (cellKeysFrom [] reports) = cellKey ` set reports"
  using cellKeysFrom_distinct_set [of "[]" reports] by simp

lemma forEachReport_empty:
  "\<exists>ks. distinct ks \<and> set ks = cellKey ` set reports \<and>
        forEachReport [] reports = Inr (gridFor reports ks)"
  using forEachReport_cellKeys cellKeys_distinct cellKeys_set by blast

section \<open>The hotspots pushed by the second loop\<close>

lemma foldl_pushCell:
  "foldl pushCell acc cells =
     acc @ map (\<lambda>cell. \<lparr>hotspot_lat = cell_lat cell, hotspot_lng = cell_lng cell,
                        intensity = length (cell_reports cell),
                        radius = min (length (cell_reports cell) * 2000) 10000,
                        reportCount = length (cell_reports cell)\<rparr>)
             (filter (\<lambda>cell. minReports \<le> length (cell_reports cell)) cells)"
  by (induction cells arbitrary: acc) (simp_all add: pushCell_def)

lemma newHotspots_cellKeys:
  "newHotspots reports =
     Inr (map (hotspotFor reports)
            (filter (\<lambda>k. minReports \<le> length (cellReports reports k))
               (cellKeysFrom [] reports)))"
proof -
  have "foldl pushCell [] (map snd (gridFor reports ks)) =
          map (hotspotFor reports) (filter (\<lambda>k. minReports \<le> length (cellReports reports k)) ks)"
    for ks
    by (simp add: foldl_pushCell gridFor_def filter_map o_def cellFor_def hotspotFor_def)
  then show ?thesis
    by (simp add: newHotspots_def forEachReport_cellKeys)
qed

lemma newHotspots_char:
  "\<exists>ks. distinct ks \<and> set ks = cellKey ` set reports \<and>
        newHotspots reports =
          Inr (map (hotspotFor reports)
                 (filter (\<lambda>k. minReports \<le> length (cellReports reports k)) ks))"
  using newHotspots_cellKeys cellKeys_distinct cellKeys_set by blast

lemma newHotspots_total: "\<exists>hs. newHotspots reports = Inr hs"
  using newHotspots_char by blast

lemma qualifying_occupied:
  "minReports \<le> length (cellReports reports k) \<Longrightarrow> k \<in> cellKey ` set reports"
proof (rule ccontr)
  assume "minReports \<le> length (cellReports reports k)" and "k \<notin> cellKey ` set reports"
  then show False
    by (simp add: cellReports_fresh minReports_def)
qed

section \<open>Rounded values of the sample inputs\<close>

lemma ddiv_12_95_gridSize: "ddiv (D 12.95) gridSize = D 129.49999999999997"
  by (simp add: ddiv_def D_def gridSize_def rnd_at [where k = "- 4"] rnd_at [where k = "3"] rnd_at [where k = "7"] roundTiesToEven_def power2_eq_square)

lemma dfloor_129_49999999999997: "dfloor (D 129.49999999999997) = 129"
  by (simp add: dfloor_def D_def gridSize_def rnd_at [where k = "7"] roundTiesToEven_def power2_eq_square)

lemma dmul_129_gridSize: "dmul 129 gridSize = D 12.9"
  by (simp add: dmul_def D_def gridSize_def rnd_at [where k = "- 4"] rnd_at [where k = "3"] roundTiesToEven_def power2_eq_square)

lemma half_gridSize: "ddiv gridSize 2 = D 0.05"
  by (simp add: ddiv_def D_def gridSize_def rnd_at [where k = "- 5"] rnd_at [where k = "- 4"] roundTiesToEven_def power2_eq_square)

lemma dadd_12_9_0_05: "dadd (D 12.9) (D 0.05) = D 12.950000000000001"
  by (simp add: dadd_def D_def gridSize_def rnd_at [where k = "- 5"] rnd_at [where k = "3"] roundTiesToEven_def power2_eq_square)

lemma ddiv_12_96_gridSize: "ddiv (D 12.96) gridSize = D 129.6"
  by (simp add: ddiv_def D_def gridSize_def rnd_at [where k = "- 4"] rnd_at [where k = "3"] rnd_at [where k = "7"] roundTiesToEven_def power2_eq_square)

lemma dfloor_129_6: "dfloor (D 129.6) = 129"
  by (simp add: dfloor_def D_def gridSize_def rnd_at [where k = "7"] roundTiesToEven_def power2_eq_square)

lemma ddiv_13_05_gridSize: "ddiv (D 13.05) gridSize = D 130.5"
  by (simp add: ddiv_def D_def gridSize_def rnd_at [where k = "- 4"] rnd_at [where k = "3"] rnd_at [where k = "7"] roundTiesToEven_def power2_eq_square)

lemma dfloor_130_5: "dfloor (D 130.5) = 130"
  by (simp add: dfloor_def D_def gridSize_def rnd_at [where k = "7"] roundTiesToEven_def power2_eq_square)

lemma dmul_130_gridSize: "dmul 130 gridSize = 13"
  by (simp add: dmul_def D_def gridSize_def rnd_at [where k = "- 4"] rnd_at [where k = "3"] roundTiesToEven_def power2_eq_square)

lemma dadd_13_0_05: "dadd 13 (D 0.05) = D 13.05"
  by (simp add: dadd_def D_def gridSize_def rnd_at [where k = "- 5"] rnd_at [where k = "3"] roundTiesToEven_def power2_eq_square)

lemma ddiv_13_06_gridSize: "ddiv (D 13.06) gridSize = D 130.6"
  by (simp add: ddiv_def D_def gridSize_def rnd_at [where k = "- 4"] rnd_at [where k = "3"] rnd_at [where k = "7"] roundTiesToEven_def power2_eq_square)

lemma dfloor_130_6: "dfloor (D 130.6) = 130"
  by (simp add: dfloor_def D_def gridSize_def rnd_at [where k = "7"] roundTiesToEven_def power2_eq_square)

lemma ddiv_8_1_gridSize: "ddiv (D 8.1) gridSize = D 80.99999999999999"
  by (simp add: ddiv_def D_def gridSize_def rnd_at [where k = "- 4"] rnd_at [where k = "3"] rnd_at [where k = "6"] roundTiesToEven_def power2_eq_square)

lemma dfloor_80_99999999999999: "dfloor (D 80.99999999999999) = 80"
  by (simp add: dfloor_def D_def gridSize_def rnd_at [where k = "6"] roundTiesToEven_def power2_eq_square)

lemma dmul_80_gridSize: "dmul 80 gridSize = 8"
  by (simp add: dmul_def D_def gridSize_def rnd_at [where k = "- 4"] rnd_at [where k = "3"] roundTiesToEven_def power2_eq_square)

lemma dadd_8_0_05: "dadd 8 (D 0.05) = D 8.05"
  by (simp add: dadd_def D_def gridSize_def rnd_at [where k = "- 5"] rnd_at [where k = "3"] roundTiesToEven_def power2_eq_square)

lemma ddiv_8_05_gridSize: "ddiv (D 8.05) gridSize = D 80.5"
  by (simp add: ddiv_def D_def gridSize_def rnd_at [where k = "- 4"] rnd_at [where k = "3"] rnd_at [where k = "6"] roundTiesToEven_def power2_eq_square)

lemma dfloor_80_5: "dfloor (D 80.5) = 80"
  by (simp add: dfloor_def D_def gridSize_def rnd_at [where k = "6"] roundTiesToEven_def power2_eq_square)

lemma ddiv_8_15_gridSize: "ddiv (D 8.15) gridSize = D 81.5"
  by (simp add: ddiv_def D_def gridSize_def rnd_at [where k = "- 4"] rnd_at [where k = "3"] rnd_at [where k = "6"] roundTiesToEven_def power2_eq_square)

lemma dfloor_81_5: "dfloor (D 81.5) = 81"
  by (simp add: dfloor_def D_def gridSize_def rnd_at [where k = "6"] roundTiesToEven_def power2_eq_square)

lemma dmul_81_gridSize: "dmul 81 gridSize = D 8.1"
  by (simp add: dmul_def D_def gridSize_def rnd_at [where k = "- 4"] rnd_at [where k = "3"] roundTiesToEven_def power2_eq_square)

lemma dadd_8_1_0_05: "dadd (D 8.1) (D 0.05) = D 8.15"
  by (simp add: dadd_def D_def gridSize_def rnd_at [where k = "- 5"] rnd_at [where k = "3"] roundTiesToEven_def power2_eq_square)

lemma ddiv_77_55_gridSize: "ddiv (D 77.55) gridSize = D 775.4999999999999"
  by (simp add: ddiv_def D_def gridSize_def rnd_at [where k = "- 4"] rnd_at [where k = "6"] rnd_at [where k = "9"] roundTiesToEven_def power2_eq_square)

lemma dfloor_775_4999999999999: "dfloor (D 775.4999999999999) = 775"
  by (simp add: dfloor_def D_def gridSize_def rnd_at [where k = "9"] roundTiesToEven_def power2_eq_square)

lemma dmul_775_gridSize: "dmul 775 gridSize = D 77.5"
  by (simp add: dmul_def D_def gridSize_def rnd_at [where k = "- 4"] rnd_at [where k = "6"] roundTiesToEven_def power2_eq_square)

lemma dadd_77_5_0_05: "dadd (D 77.5) (D 0.05) = D 77.55"
  by (simp add: dadd_def D_def gridSize_def rnd_at [where k = "- 5"] rnd_at [where k = "6"] roundTiesToEven_def power2_eq_square)

lemma ddiv_77_56_gridSize: "ddiv (D 77.56) gridSize = D 775.6"
  by (simp add: ddiv_def D_def gridSize_def rnd_at [where k = "- 4"] rnd_at [where k = "6"] rnd_at [where k = "9"] roundTiesToEven_def power2_eq_square)

lemma dfloor_775_6: "dfloor (D 775.6) = 775"
  by (simp add: dfloor_def D_def gridSize_def rnd_at [where k = "9"] roundTiesToEven_def power2_eq_square)

lemma ddiv_0_3_gridSize: "ddiv (D 0.3) gridSize = D 2.9999999999999996"
  by (simp add: ddiv_def D_def gridSize_def rnd_at [where k = "- 4"] rnd_at [where k = "- 2"] rnd_at [where k = "1"] roundTiesToEven_def power2_eq_square)

lemma dfloor_2_9999999999999996: "dfloor (D 2.9999999999999996) = 2"
  by (simp add: dfloor_def D_def gridSize_def rnd_at [where k = "1"] roundTiesToEven_def power2_eq_square)

lemma dmul_2_gridSize: "dmul 2 gridSize = D 0.2"
  by (simp add: dmul_def D_def gridSize_def rnd_at [where k = "- 4"] rnd_at [where k = "- 3"] roundTiesToEven_def power2_eq_square)

lemma dadd_0_2_0_05: "dadd (D 0.2) (D 0.05) = D 0.25"
  by (simp add: dadd_def D_def gridSize_def rnd_at [where k = "- 5"] rnd_at [where k = "- 3"] rnd_at [where k = "- 2"] roundTiesToEven_def power2_eq_square)

lemma ddiv_0_7_gridSize: "ddiv (D 0.7) gridSize = D 6.999999999999999"
  by (simp add: ddiv_def D_def gridSize_def rnd_at [where k = "- 4"] rnd_at [where k = "- 1"] rnd_at [where k = "2"] roundTiesToEven_def power2_eq_square)

lemma dfloor_6_999999999999999: "dfloor (D 6.999999999999999) = 6"
  by (simp add: dfloor_def D_def gridSize_def rnd_at [where k = "2"] roundTiesToEven_def power2_eq_square)

lemma dmul_6_gridSize: "dmul 6 gridSize = D 0.6000000000000001"
  by (simp add: dmul_def D_def gridSize_def rnd_at [where k = "- 4"] rnd_at [where k = "- 1"] roundTiesToEven_def power2_eq_square)

lemma dadd_0_6000000000000001_0_05: "dadd (D 0.6000000000000001) (D 0.05) = D 0.6500000000000001"
  by (simp add: dadd_def D_def gridSize_def rnd_at [where k = "- 5"] rnd_at [where k = "- 1"] roundTiesToEven_def power2_eq_square)

lemma ddiv_77_6_gridSize: "ddiv (D 77.6) gridSize = D 775.9999999999999"
  by (simp add: ddiv_def D_def gridSize_def rnd_at [where k = "- 4"] rnd_at [where k = "6"] rnd_at [where k = "9"] roundTiesToEven_def power2_eq_square)

lemma dfloor_775_9999999999999: "dfloor (D 775.9999999999999) = 775"
  by (simp add: dfloor_def D_def gridSize_def rnd_at [where k = "9"] roundTiesToEven_def power2_eq_square)

lemma ddiv_13_1_gridSize: "ddiv (D 13.1) gridSize = 131"
  by (simp add: ddiv_def D_def gridSize_def rnd_at [where k = "- 4"] rnd_at [where k = "3"] rnd_at [where k = "7"] roundTiesToEven_def power2_eq_square)

lemma dfloor_131: "dfloor 131 = 131"
  by (simp add: dfloor_def D_def gridSize_def  roundTiesToEven_def power2_eq_square)

lemma dmul_131_gridSize: "dmul 131 gridSize = D 13.100000000000001"
  by (simp add: dmul_def D_def gridSize_def rnd_at [where k = "- 4"] rnd_at [where k = "3"] roundTiesToEven_def power2_eq_square)

lemma dadd_13_100000000000001_0_05: "dadd (D 13.100000000000001) (D 0.05) = D 13.150000000000002"
  by (simp add: dadd_def D_def gridSize_def rnd_at [where k = "- 5"] rnd_at [where k = "3"] roundTiesToEven_def power2_eq_square)

lemma neq_12_9_13: "D 12.9 \<noteq> 13"
  by (simp add:  D_def gridSize_def rnd_at [where k = "3"] roundTiesToEven_def power2_eq_square)

lemma neq_13_12_9: "13 \<noteq> D 12.9"
  by (simp add:  D_def gridSize_def rnd_at [where k = "3"] roundTiesToEven_def power2_eq_square)

lemma neq_8_8_1: "8 \<noteq> D 8.1"
  by (simp add:  D_def gridSize_def rnd_at [where k = "3"] roundTiesToEven_def power2_eq_square)

lemma neq_8_1_8: "D 8.1 \<noteq> 8"
  by (simp add:  D_def gridSize_def rnd_at [where k = "3"] roundTiesToEven_def power2_eq_square)

lemma neq_12_950000000000001_13_05: "D 12.950000000000001 \<noteq> D 13.05"
  by (simp add:  D_def gridSize_def rnd_at [where k = "3"] roundTiesToEven_def power2_eq_square)

lemma neq_13_05_12_950000000000001: "D 13.05 \<noteq> D 12.950000000000001"
  by (simp add:  D_def gridSize_def rnd_at [where k = "3"] roundTiesToEven_def power2_eq_square)

lemma dsub_12_95_12_95: "dsub (D 12.95) (D 12.95) = 0"
  by (simp add: dsub_def D_def gridSize_def rnd_at [where k = "3"] roundTiesToEven_def power2_eq_square rnd_0)

lemma dpow_0: "dpow 0 2 = 0"
  by (simp add: dpow_def D_def gridSize_def  roundTiesToEven_def power2_eq_square rnd_0)

lemma dsub_77_55_77_6: "dsub (D 77.55) (D 77.6) = D (- 0.04999999999999716)"
  by (simp add: dsub_def D_def gridSize_def rnd_at [where k = "- 5"] rnd_at [where k = "6"] roundTiesToEven_def power2_eq_square)

lemma dpow_m0_04999999999999716: "dpow (D (- 0.04999999999999716)) 2 = D 0.002499999999999716"
  by (simp add: dpow_def D_def gridSize_def rnd_at [where k = "- 9"] rnd_at [where k = "- 5"] roundTiesToEven_def power2_eq_square)

lemma dadd_0_0_002499999999999716: "dadd 0 (D 0.002499999999999716) = D 0.002499999999999716"
  by (simp add: dadd_def D_def gridSize_def rnd_at [where k = "- 9"] roundTiesToEven_def power2_eq_square)

lemma dsqrt_0_002499999999999716: "dsqrt (D 0.002499999999999716) = D 0.04999999999999716"
  by (simp add:  D_def gridSize_def rnd_at [where k = "- 9"] rnd_at [where k = "- 5"] roundTiesToEven_def power2_eq_square dsqrt_eqI [where m = 7205759403792384 and K = "- 5"])

lemma less_0_04999999999999716_0_05: "D 0.04999999999999716 < D 0.05"
  by (simp add:  D_def gridSize_def rnd_at [where k = "- 5"] roundTiesToEven_def power2_eq_square)

lemma dsub_12_950000000000001_12_96: "dsub (D 12.950000000000001) (D 12.96) = D (- 0.009999999999999787)"
  by (simp add: dsub_def D_def gridSize_def rnd_at [where k = "- 7"] rnd_at [where k = "3"] roundTiesToEven_def power2_eq_square)

lemma dpow_m0_009999999999999787: "dpow (D (- 0.009999999999999787)) 2 = D (9.999999999999574 / 10 ^ 5)"
  by (simp add: dpow_def D_def gridSize_def rnd_at [where k = "- 14"] rnd_at [where k = "- 7"] roundTiesToEven_def power2_eq_square)

lemma dsub_77_55_77_56: "dsub (D 77.55) (D 77.56) = D (- 0.010000000000005116)"
  by (simp add: dsub_def D_def gridSize_def rnd_at [where k = "- 7"] rnd_at [where k = "6"] roundTiesToEven_def power2_eq_square)

lemma dpow_m0_010000000000005116: "dpow (D (- 0.010000000000005116)) 2 = D 0.00010000000000010231"
  by (simp add: dpow_def D_def gridSize_def rnd_at [where k = "- 14"] rnd_at [where k = "- 7"] roundTiesToEven_def power2_eq_square)

lemma dadd_9_999999999999574em05_0_00010000000000010231: "dadd (D (9.999999999999574 / 10 ^ 5)) (D 0.00010000000000010231) = D 0.00020000000000009805"
  by (simp add: dadd_def D_def gridSize_def rnd_at [where k = "- 14"] rnd_at [where k = "- 13"] roundTiesToEven_def power2_eq_square)

lemma dsqrt_0_00020000000000009805: "dsqrt (D 0.00020000000000009805) = D 0.014142135623734417"
  by (simp add:  D_def gridSize_def rnd_at [where k = "- 13"] rnd_at [where k = "- 7"] roundTiesToEven_def power2_eq_square dsqrt_eqI [where m = 8152386140834987 and K = "- 7"])

lemma less_0_014142135623734417_0_05: "D 0.014142135623734417 < D 0.05"
  by (simp add:  D_def gridSize_def rnd_at [where k = "- 7"] rnd_at [where k = "- 5"] roundTiesToEven_def power2_eq_square)

lemma dsub_0_03125_0: "dsub (D 0.03125) 0 = D 0.03125"
  by (simp add: dsub_def D_def gridSize_def rnd_at [where k = "- 5"] roundTiesToEven_def power2_eq_square)

lemma dpow_0_03125: "dpow (D 0.03125) 2 = D 0.0009765625"
  by (simp add: dpow_def D_def gridSize_def rnd_at [where k = "- 10"] rnd_at [where k = "- 5"] roundTiesToEven_def power2_eq_square)

lemma dsub_0_0: "dsub 0 0 = 0"
  by (simp add: dsub_def D_def gridSize_def  roundTiesToEven_def power2_eq_square rnd_0)

lemma dadd_0_0009765625_0: "dadd (D 0.0009765625) 0 = D 0.0009765625"
  by (simp add: dadd_def D_def gridSize_def rnd_at [where k = "- 10"] roundTiesToEven_def power2_eq_square)

lemma dsqrt_0_0009765625: "dsqrt (D 0.0009765625) = D 0.03125"
  by (simp add:  D_def gridSize_def rnd_at [where k = "- 10"] rnd_at [where k = "- 5"] roundTiesToEven_def power2_eq_square dsqrt_eqI [where m = 4503599627370496 and K = "- 5"])

lemma less_0_03125_0_05: "D 0.03125 < D 0.05"
  by (simp add:  D_def gridSize_def rnd_at [where k = "- 5"] roundTiesToEven_def power2_eq_square)

lemma dsub_0_015625_0: "dsub (D 0.015625) 0 = D 0.015625"
  by (simp add: dsub_def D_def gridSize_def rnd_at [where k = "- 6"] roundTiesToEven_def power2_eq_square)

lemma dpow_0_015625: "dpow (D 0.015625) 2 = D 0.000244140625"
  by (simp add: dpow_def D_def gridSize_def rnd_at [where k = "- 12"] rnd_at [where k = "- 6"] roundTiesToEven_def power2_eq_square)

lemma dadd_0_000244140625_0: "dadd (D 0.000244140625) 0 = D 0.000244140625"
  by (simp add: dadd_def D_def gridSize_def rnd_at [where k = "- 12"] roundTiesToEven_def power2_eq_square)

lemma dsqrt_0_000244140625: "dsqrt (D 0.000244140625) = D 0.015625"
  by (simp add:  D_def gridSize_def rnd_at [where k = "- 12"] rnd_at [where k = "- 6"] roundTiesToEven_def power2_eq_square dsqrt_eqI [where m = 4503599627370496 and K = "- 6"])

lemma less_0_015625_0_05: "D 0.015625 < D 0.05"
  by (simp add:  D_def gridSize_def rnd_at [where k = "- 6"] rnd_at [where k = "- 5"] roundTiesToEven_def power2_eq_square)

lemma less_0_015625_0_03125: "D 0.015625 < D 0.03125"
  by (simp add:  D_def gridSize_def rnd_at [where k = "- 6"] rnd_at [where k = "- 5"] roundTiesToEven_def power2_eq_square)

lemma dsub_1_0: "dsub 1 0 = 1"
  by (simp add: dsub_def D_def gridSize_def rnd_at [where k = "0"] roundTiesToEven_def power2_eq_square)

lemma dpow_1: "dpow 1 2 = 1"
  by (simp add: dpow_def D_def gridSize_def rnd_at [where k = "0"] roundTiesToEven_def power2_eq_square)

lemma dadd_1_0: "dadd 1 0 = 1"
  by (simp add: dadd_def D_def gridSize_def rnd_at [where k = "0"] roundTiesToEven_def power2_eq_square)

lemma dsqrt_1: "dsqrt 1 = 1"
  by (simp add:  D_def gridSize_def  roundTiesToEven_def power2_eq_square dsqrt_eqI [where m = 4503599627370496 and K = "0"])

lemma notless_1_0_05: "\<not> 1 < D 0.05"
  by (simp add:  D_def gridSize_def rnd_at [where k = "- 5"] roundTiesToEven_def power2_eq_square)

lemmas cell_evals =
  ddiv_12_95_gridSize dfloor_129_49999999999997 dmul_129_gridSize half_gridSize
  dadd_12_9_0_05 ddiv_12_96_gridSize dfloor_129_6 ddiv_13_05_gridSize
  dfloor_130_5 dmul_130_gridSize dadd_13_0_05 ddiv_13_06_gridSize
  dfloor_130_6 ddiv_8_1_gridSize dfloor_80_99999999999999 dmul_80_gridSize
  dadd_8_0_05 ddiv_8_05_gridSize dfloor_80_5 ddiv_8_15_gridSize
  dfloor_81_5 dmul_81_gridSize dadd_8_1_0_05 ddiv_77_55_gridSize
  dfloor_775_4999999999999 dmul_775_gridSize dadd_77_5_0_05 ddiv_77_56_gridSize
  dfloor_775_6 ddiv_0_3_gridSize dfloor_2_9999999999999996 dmul_2_gridSize
  dadd_0_2_0_05 ddiv_0_7_gridSize dfloor_6_999999999999999 dmul_6_gridSize
  dadd_0_6000000000000001_0_05 ddiv_77_6_gridSize dfloor_775_9999999999999 ddiv_13_1_gridSize
  dfloor_131 dmul_131_gridSize dadd_13_100000000000001_0_05 neq_12_9_13
  neq_13_12_9 neq_8_8_1 neq_8_1_8 neq_12_950000000000001_13_05
  neq_13_05_12_950000000000001

lemmas distance_evals =
  dsub_12_95_12_95 dpow_0 dsub_77_55_77_6 dpow_m0_04999999999999716
  dadd_0_0_002499999999999716 dsqrt_0_002499999999999716 less_0_04999999999999716_0_05 dsub_12_950000000000001_12_96
  dpow_m0_009999999999999787 dsub_77_55_77_56 dpow_m0_010000000000005116 dadd_9_999999999999574em05_0_00010000000000010231
  dsqrt_0_00020000000000009805 less_0_014142135623734417_0_05 dsub_0_03125_0 dpow_0_03125
  dsub_0_0 dadd_0_0009765625_0 dsqrt_0_0009765625 less_0_03125_0_05
  dsub_0_015625_0 dpow_0_015625 dadd_0_000244140625_0 dsqrt_0_000244140625
  less_0_015625_0_05 less_0_015625_0_03125 dsub_1_0 dpow_1
  dadd_1_0 dsqrt_1 notless_1_0_05

section \<open>The sample inputs evaluated\<close>

lemma length_scenarioA: "length scenarioA = 2"
  by (simp add: scenarioA_def)

lemma forEachReport_scenarioA: "forEachReport [] scenarioA = Inr gridA"
  by (simp add: gridA_def scenarioA_def sampleReport_def addReport_def cellKey_def
      gridLat_def gridLng_def Let_def cell_evals cong: D_cong)

lemma newHotspots_scenarioA: "newHotspots scenarioA = Inr [hotspotA]"
  by (simp add: newHotspots_def forEachReport_scenarioA gridA_def pushCell_def minReports_def
      Let_def hotspotA_def length_scenarioA cong: D_cong)

lemma cellReports_scenarioA: "cellReports scenarioA (D 12.9, D 77.5) = scenarioA"
  by (simp add: cellReports_def scenarioA_def sampleReport_def cellKey_def gridLat_def
      gridLng_def cell_evals cong: D_cong)

lemma newHotspots_scenarioALow: "newHotspots scenarioALow = Inr [hotspotA]"
  by (simp add: newHotspots_def scenarioALow_def sampleReport_def addReport_def cellKey_def
      gridLat_def gridLng_def Let_def pushCell_def minReports_def hotspotA_def cell_evals
      cong: D_cong)

lemma cellReports_scenarioALow: "cellReports scenarioALow (D 12.9, D 77.5) = scenarioALow"
  by (simp add: cellReports_def scenarioALow_def sampleReport_def cellKey_def gridLat_def
      gridLng_def cell_evals cong: D_cong)

lemma forEachReport_scenarioC: "forEachReport [] scenarioC = Inr gridC"
  by (simp add: gridC_def scenarioC_def eval_nat_numeral sampleReport_def addReport_def
      cellKey_def gridLat_def gridLng_def Let_def cell_evals cong: D_cong)

lemma newHotspots_scenarioC: "newHotspots scenarioC = Inr [hotspotC]"
  by (simp add: newHotspots_def forEachReport_scenarioC gridC_def pushCell_def minReports_def
      Let_def hotspotC_def cong: D_cong) (simp add: scenarioC_def)

lemma newHotspots_scenarioTwoCells: "newHotspots scenarioTwoCells = Inr [hotspotA, hotspotB]"
  by (simp add: newHotspots_def scenarioTwoCells_def sampleReport_def addReport_def cellKey_def
      gridLat_def gridLng_def Let_def pushCell_def minReports_def hotspotA_def hotspotB_def
      cell_evals cong: D_cong)

lemma newHotspots_scenarioTwoCellsShuffled:
  "newHotspots scenarioTwoCellsShuffled = Inr [hotspotB, hotspotA]"
  by (simp add: newHotspots_def scenarioTwoCellsShuffled_def sampleReport_def addReport_def
      cellKey_def gridLat_def gridLng_def Let_def pushCell_def minReports_def hotspotA_def
      hotspotB_def cell_evals cong: D_cong)

lemma forEachReport_scenarioRounded: "forEachReport [] scenarioRounded = Inr gridRounded"
  by (simp add: gridRounded_def scenarioRounded_def sampleReport_def addReport_def cellKey_def
      gridLat_def gridLng_def Let_def cell_evals cong: D_cong)

lemma newHotspots_scenarioRounded: "newHotspots scenarioRounded = Inr [hotspotRounded]"
  by (simp add: newHotspots_def forEachReport_scenarioRounded gridRounded_def pushCell_def
      minReports_def Let_def hotspotRounded_def cong: D_cong) (simp add: scenarioRounded_def)

lemma cellKeys_scenarioRounded: "cellKey ` set scenarioRounded = {(8, D 77.5)}"
  by (simp add: scenarioRounded_def sampleReport_def cellKey_def gridLat_def gridLng_def
      cell_evals cong: D_cong)

lemma cellReports_scenarioRounded: "cellReports scenarioRounded (8, D 77.5) = scenarioRounded"
  by (simp add: cellReports_def scenarioRounded_def sampleReport_def cellKey_def gridLat_def
      gridLng_def cell_evals cong: D_cong)

lemma newHotspots_scenarioSplit: "newHotspots scenarioSplit = Inr []"
  by (simp add: newHotspots_def scenarioSplit_def sampleReport_def addReport_def cellKey_def
      gridLat_def gridLng_def Let_def pushCell_def minReports_def cell_evals cong: D_cong)

text \<open>
  Coordinates whose quotient by the grid size rounds below an integer, or whose floored
  multiple of the grid size is not the decimal one.
\<close>

lemma floored_coordinates_rounding:
  "dmul (dfloor (ddiv (D 8.1) gridSize)) gridSize = 8"
  "dmul (dfloor (ddiv (D 0.3) gridSize)) gridSize = D 0.2"
  "dmul (dfloor (ddiv (D 0.7) gridSize)) gridSize = D 0.6000000000000001"
  "dmul (dfloor (ddiv (D 77.6) gridSize)) gridSize = D 77.5"
  "dmul (dfloor (ddiv (D 13.1) gridSize)) gridSize = D 13.100000000000001"
  by (simp_all add: cell_evals cong: D_cong)

lemma distance_at_threshold:
  "distance (hotspotAt (D 12.95) (D 77.55)) (sampleReport (D 12.95) (D 77.6) Low) =
     D 0.04999999999999716"
  by (simp add: distance_def hotspotAt_def sampleReport_def distance_evals cong: D_cong)

lemma distance_hotspotA:
  "distance hotspotA (sampleReport (D 12.96) (D 77.56) Low) = D 0.014142135623734417"
  by (simp add: distance_def hotspotA_def sampleReport_def distance_evals cong: D_cong)

lemma distance_on_meridian:
  "distance (hotspotAt 1 0) (sampleReport 0 0 Low) = 1"
  "distance (hotspotAt (D 0.03125) 0) (sampleReport 0 0 Low) = D 0.03125"
  "distance (hotspotAt (D 0.015625) 0) (sampleReport 0 0 Low) = D 0.015625"
  by (simp_all add: distance_def hotspotAt_def sampleReport_def distance_evals cong: D_cong)

section \<open>Empty report collections\<close>

text \<open>
  C10. Invoked with an empty report collection, \<^verbatim>\<open>calculateHotspots\<close> returns before it
  writes the hotspot state: the component state, and with it the stored hotspot list, is what
  it was before the call. In particular the hotspots that an earlier call stored for a
  non-empty collection are still stored after a call with the empty collection.
\<close>

theorem calculateHotspots_empty_unchanged:
  "calculateHotspots [] st = Inr st \<and>
   (\<forall>reports st'. reports \<noteq> [] \<and> calculateHotspots reports st = Inr st' \<longrightarrow>
      newHotspots reports = Inr (hotspots st') \<and>
      (\<exists>st''. calculateHotspots [] st' = Inr st'' \<and> hotspots st'' = hotspots st'))"
  by (auto simp: calculateHotspots_def setHotspots_def split: sum.splits)

theorem calculateHotspots_empty_unchanged_witness:
  "scenarioA \<noteq> [] \<and>
   calculateHotspots scenarioA initialState = Inr \<lparr>hotspots = [hotspotA], selectedReport = None\<rparr> \<and>
   calculateHotspots [] \<lparr>hotspots = [hotspotA], selectedReport = None\<rparr> =
     Inr \<lparr>hotspots = [hotspotA], selectedReport = None\<rparr>"
proof -
  have n: "scenarioA \<noteq> []"
    by (simp add: scenarioA_def)
  have c: "calculateHotspots scenarioA initialState =
             Inr \<lparr>hotspots = [hotspotA], selectedReport = None\<rparr>"
    by (simp add: calculateHotspots_def length_scenarioA newHotspots_scenarioA setHotspots_def
        initialState_def)
  from calculateHotspots_empty_unchanged [of "\<lparr>hotspots = [hotspotA], selectedReport = None\<rparr>"]
  have "calculateHotspots [] \<lparr>hotspots = [hotspotA], selectedReport = None\<rparr> =
          Inr \<lparr>hotspots = [hotspotA], selectedReport = None\<rparr>"
    by blast
  with n c show ?thesis by blast
qed

text \<open>
  C1. For the empty report collection the computation yields the empty sequence of hotspots
  and no error. The two loops of lines 199-231 produce no hotspot from it; the call itself
  returns at line 197 without an error and adds no hotspot to the stored list; in a freshly
  mounted component the stored list is the empty one after the call.
\<close>

theorem calculateHotspots_empty_input:
  "newHotspots [] = Inr [] \<and>
   (\<exists>st'. calculateHotspots [] st = Inr st' \<and> hotspots st' = hotspots st) \<and>
   (\<exists>st'. calculateHotspots [] initialState = Inr st' \<and> hotspots st' = [])"
  by (simp add: newHotspots_def calculateHotspots_def initialState_def)

theorem calculateHotspots_empty_input_witness:
  "\<exists>st'. calculateHotspots [] \<lparr>hotspots = [], selectedReport = Some (sampleReport 0 0 Low)\<rparr> =
           Inr st' \<and> hotspots st' = []"
  using calculateHotspots_empty_input
    [of "\<lparr>hotspots = [], selectedReport = Some (sampleReport 0 0 Low)\<rparr>"]
  by simp

section \<open>Dominant severity\<close>

lemma dominantSeverity_cases:
  "dominantSeverity rs =
     (if \<exists>r\<in>set rs. severity r = Critical then Critical
      else if \<exists>r\<in>set rs. severity r = High then High
      else Medium)"
  by (simp add: dominantSeverity_def list_ex_iff)

lemma cellKey_severity: "cellKey (r\<lparr>severity := s\<rparr>) = cellKey r"
  by (simp add: cellKey_def gridLat_def gridLng_def)

lemma cellKeysFrom_severity:
  "cellKeysFrom ks (map (\<lambda>r. r\<lparr>severity := f r\<rparr>) rs) = cellKeysFrom ks rs"
  by (induction rs arbitrary: ks) (simp_all add: cellKey_severity)

lemma length_cellReports_severity:
  "length (cellReports (map (\<lambda>r. r\<lparr>severity := f r\<rparr>) rs) k) = length (cellReports rs k)"
  by (induction rs) (simp_all add: cellReports_def cellKey_severity)

lemma hotspotFor_severity:
  "hotspotFor (map (\<lambda>r. r\<lparr>severity := f r\<rparr>) rs) = hotspotFor rs"
  by (rule ext) (simp add: hotspotFor_def length_cellReports_severity)

text \<open>
  C2, as stated, asks for a dominant severity of the emitted hotspot. The two reports of
  scenario A, one of them critical, and the same two reports with severity low are emitted
  as one and the same hotspot, while the severity computed for their cell is critical for
  the first input and medium for the second: the emitted hotspot does not carry it.
\<close>

theorem emitted_hotspot_has_no_severity_counterexample:
  "cellReports scenarioA (D 12.9, D 77.5) = scenarioA \<and>
   cellReports scenarioALow (D 12.9, D 77.5) = scenarioALow \<and>
   newHotspots scenarioA = Inr [hotspotA] \<and>
   newHotspots scenarioALow = Inr [hotspotA] \<and>
   dominantSeverity scenarioA = Critical \<and>
   dominantSeverity scenarioALow = Medium"
proof -
  have "dominantSeverity scenarioA = Critical"
    by (simp add: dominantSeverity_def scenarioA_def sampleReport_def)
  moreover have "dominantSeverity scenarioALow = Medium"
    by (simp add: dominantSeverity_def scenarioALow_def sampleReport_def)
  ultimately show ?thesis
    using cellReports_scenarioA cellReports_scenarioALow newHotspots_scenarioA
      newHotspots_scenarioALow
    by - (intro conjI; assumption)
qed

text \<open>
  C2, amended. For every cell that emits a hotspot (a cell with at least \<open>minReports\<close>
  reports), the severity computed at lines 220-221 from the reports of the cell is critical
  if one of them is critical, else high if one is high, else medium; it is never low, and it
  is medium when all of them are low. The value is not part of the emitted hotspot: the
  hotspots emitted for an input stay the same when the severities of its reports are replaced
  by any others.
\<close>

theorem severity_computed_but_not_emitted:
  "newHotspots (map (\<lambda>r. r\<lparr>severity := f r\<rparr>) reports) = newHotspots reports \<and>
   (\<exists>grid. forEachReport [] reports = Inr grid \<and>
     (\<forall>(k, cell)\<in>set grid.
        cell_reports cell = cellReports reports k \<and>
        (minReports \<le> length (cell_reports cell) \<longrightarrow>
           dominantSeverity (cell_reports cell) =
             (if \<exists>r\<in>set (cell_reports cell). severity r = Critical then Critical
              else if \<exists>r\<in>set (cell_reports cell). severity r = High then High
              else Medium) \<and>
           dominantSeverity (cell_reports cell) \<noteq> Low \<and>
           ((\<forall>r\<in>set (cell_reports cell). severity r = Low) \<longrightarrow>
              dominantSeverity (cell_reports cell) = Medium))))"
proof
  show "newHotspots (map (\<lambda>r. r\<lparr>severity := f r\<rparr>) reports) = newHotspots reports"
    by (simp only: newHotspots_cellKeys cellKeysFrom_severity hotspotFor_severity
        length_cellReports_severity)
next
  obtain ks where ks: "forEachReport [] reports = Inr (gridFor reports ks)"
    using forEachReport_empty by blast
  have "\<forall>(k, cell)\<in>set (gridFor reports ks). cell_reports cell = cellReports reports k"
    by (auto simp: gridFor_def cellFor_def)
  moreover have "\<And>rs. dominantSeverity rs \<noteq> Low"
    by (simp add: dominantSeverity_cases)
  moreover have "\<And>rs. minReports \<le> length rs \<Longrightarrow> (\<forall>r\<in>set rs. severity r = Low) \<Longrightarrow>
      dominantSeverity rs = Medium"
    by (auto simp add: dominantSeverity_cases)
  ultimately show "\<exists>grid. forEachReport [] reports = Inr grid \<and>
     (\<forall>(k, cell)\<in>set grid.
        cell_reports cell = cellReports reports k \<and>
        (minReports \<le> length (cell_reports cell) \<longrightarrow>
           dominantSeverity (cell_reports cell) =
             (if \<exists>r\<in>set (cell_reports cell). severity r = Critical then Critical
              else if \<exists>r\<in>set (cell_reports cell). severity r = High then High
              else Medium) \<and>
           dominantSeverity (cell_reports cell) \<noteq> Low \<and>
           ((\<forall>r\<in>set (cell_reports cell). severity r = Low) \<longrightarrow>
              dominantSeverity (cell_reports cell) = Medium)))"
    using ks dominantSeverity_cases
    by (intro exI [of _ "gridFor reports ks"]) (auto simp del: split_paired_All)
qed

theorem severity_computed_but_not_emitted_witness:
  "map (\<lambda>r. r\<lparr>severity := Low\<rparr>) scenarioA = scenarioALow \<and>
   newHotspots scenarioALow = newHotspots scenarioA \<and>
   forEachReport [] scenarioC = Inr gridC \<and>
   minReports \<le> length scenarioC \<and>
   list_all (\<lambda>r. severity r = Low) scenarioC \<and>
   dominantSeverity scenarioC = Medium"
proof -
  have m: "map (\<lambda>r. r\<lparr>severity := Low\<rparr>) scenarioA = scenarioALow"
    by (simp add: scenarioA_def scenarioALow_def sampleReport_def)
  have "newHotspots (map (\<lambda>r. r\<lparr>severity := Low\<rparr>) scenarioA) = newHotspots scenarioA"
    using severity_computed_but_not_emitted [of "\<lambda>r. Low" scenarioA] by (rule conjunct1)
  then have e: "newHotspots scenarioALow = newHotspots scenarioA"
    unfolding m .
  have l: "minReports \<le> length scenarioC"
    by (simp add: scenarioC_def minReports_def)
  have s: "\<forall>r\<in>set scenarioC. severity r = Low"
    by (simp add: scenarioC_def sampleReport_def)
  from severity_computed_but_not_emitted [of severity scenarioC] l s
  have d: "dominantSeverity scenarioC = Medium"
    by (simp add: forEachReport_scenarioC gridC_def)
  have a: "list_all (\<lambda>r. severity r = Low) scenarioC"
    using s by (simp add: list_all_iff)
  from m e forEachReport_scenarioC l a d show ?thesis
    by - (intro conjI; assumption)
qed

section \<open>Which cells emit a hotspot\<close>

text \<open>
  C3. For every input, the emitted hotspots are, in order, the hotspots of a duplicate-free
  list of exactly the grid cells that contain at least \<open>minReports\<close> reports: one hotspot
  for each such cell and none for any other cell. The intensity and the report count of the
  hotspot of a cell are the number of reports in the cell.
\<close>

theorem one_hotspot_per_qualifying_cell:
  "\<exists>ks. distinct ks \<and>
     set ks = {k \<in> cellKey ` set reports. minReports \<le> length (cellReports reports k)} \<and>
     newHotspots reports =
       Inr (map (\<lambda>k. \<lparr>hotspot_lat = dadd (fst k) (ddiv gridSize 2),
                        hotspot_lng = dadd (snd k) (ddiv gridSize 2),
                        intensity = length (cellReports reports k),
                        radius = min (length (cellReports reports k) * 2000) 10000,
                        reportCount = length (cellReports reports k)\<rparr>) ks)"
proof -
  let ?ks = "filter (\<lambda>k. minReports \<le> length (cellReports reports k)) (cellKeysFrom [] reports)"
  have "distinct ?ks"
    using cellKeys_distinct by simp
  moreover have "set ?ks =
      {k \<in> cellKey ` set reports. minReports \<le> length (cellReports reports k)}"
    using cellKeys_set by auto
  moreover have "newHotspots reports =
       Inr (map (\<lambda>k. \<lparr>hotspot_lat = dadd (fst k) (ddiv gridSize 2),
                        hotspot_lng = dadd (snd k) (ddiv gridSize 2),
                        intensity = length (cellReports reports k),
                        radius = min (length (cellReports reports k) * 2000) 10000,
                        reportCount = length (cellReports reports k)\<rparr>) ?ks)"
    unfolding newHotspots_cellKeys hotspotFor_def ..
  ultimately show ?thesis by blast
qed

theorem one_hotspot_per_qualifying_cell_witness:
  "newHotspots scenarioRounded = Inr [hotspotRounded] \<and>
   cellReports scenarioRounded (8, D 77.5) = scenarioRounded \<and>
   {k \<in> cellKey ` set scenarioRounded. minReports \<le> length (cellReports scenarioRounded k)} =
     {(8, D 77.5)} \<and>
   intensity hotspotRounded = length (cellReports scenarioRounded (8, D 77.5)) \<and>
   reportCount hotspotRounded = length (cellReports scenarioRounded (8, D 77.5)) \<and>
   newHotspots scenarioSplit = Inr []"
proof -
  let ?Q = "{k \<in> cellKey ` set scenarioRounded.
              minReports \<le> length (cellReports scenarioRounded k)}"
  from one_hotspot_per_qualifying_cell [of scenarioRounded] obtain ks where
    s: "set ks = ?Q" and
    n: "newHotspots scenarioRounded =
       Inr (map (\<lambda>k. \<lparr>hotspot_lat = dadd (fst k) (ddiv gridSize 2),
                        hotspot_lng = dadd (snd k) (ddiv gridSize 2),
                        intensity = length (cellReports scenarioRounded k),
                        radius = min (length (cellReports scenarioRounded k) * 2000) 10000,
                        reportCount = length (cellReports scenarioRounded k)\<rparr>) ks)"
    by blast
  from n have m: "map (\<lambda>k. \<lparr>hotspot_lat = dadd (fst k) (ddiv gridSize 2),
                        hotspot_lng = dadd (snd k) (ddiv gridSize 2),
                        intensity = length (cellReports scenarioRounded k),
                        radius = min (length (cellReports scenarioRounded k) * 2000) 10000,
                        reportCount = length (cellReports scenarioRounded k)\<rparr>) ks =
                  [hotspotRounded]"
    unfolding newHotspots_scenarioRounded by simp
  then obtain k where k: "ks = [k]"
    and h: "hotspotRounded =
              \<lparr>hotspot_lat = dadd (fst k) (ddiv gridSize 2),
               hotspot_lng = dadd (snd k) (ddiv gridSize 2),
               intensity = length (cellReports scenarioRounded k),
               radius = min (length (cellReports scenarioRounded k) * 2000) 10000,
               reportCount = length (cellReports scenarioRounded k)\<rparr>"
    by (cases ks) auto
  from s k have "k \<in> cellKey ` set scenarioRounded" by auto
  then have k8: "k = (8, D 77.5)"
    unfolding cellKeys_scenarioRounded by simp
  from s k k8 have q: "?Q = {(8, D 77.5)}" by simp
  have i: "intensity hotspotRounded = length (cellReports scenarioRounded (8, D 77.5))"
    by (subst h) (simp add: k8)
  have c: "reportCount hotspotRounded = length (cellReports scenarioRounded (8, D 77.5))"
    by (subst h) (simp add: k8)
  from newHotspots_scenarioRounded cellReports_scenarioRounded q i c newHotspots_scenarioSplit
  show ?thesis
    by - (intro conjI; assumption)
qed

section \<open>Radius\<close>

text \<open>
  C4. The radius of every emitted hotspot is the minimum of 2000 times its intensity and
  10000; it never exceeds 10000, and of two emitted hotspots (of the same or of different
  inputs) the one with the larger intensity has the larger or equal radius.
\<close>

theorem radius_capped_and_monotone:
  "\<exists>hs hs'. newHotspots reports = Inr hs \<and> newHotspots reports' = Inr hs' \<and>
     (\<forall>h\<in>set hs \<union> set hs'. radius h = min (intensity h * 2000) 10000 \<and> radius h \<le> 10000) \<and>
     (\<forall>h\<in>set hs. \<forall>h'\<in>set hs'. intensity h \<le> intensity h' \<longrightarrow> radius h \<le> radius h')"
proof -
  obtain ks where n: "newHotspots reports =
          Inr (map (hotspotFor reports)
                 (filter (\<lambda>k. minReports \<le> length (cellReports reports k)) ks))"
    using newHotspots_char by blast
  obtain ks' where n': "newHotspots reports' =
          Inr (map (hotspotFor reports')
                 (filter (\<lambda>k. minReports \<le> length (cellReports reports' k)) ks'))"
    using newHotspots_char by blast
  have r: "radius (hotspotFor rs k) = min (intensity (hotspotFor rs k) * 2000) 10000" for rs k
    by (simp add: hotspotFor_def)
  show ?thesis
    unfolding n n' by (intro exI conjI refl) (auto simp: r)
qed

theorem radius_capped_and_monotone_witness:
  "newHotspots scenarioA = Inr [hotspotA] \<and> newHotspots scenarioC = Inr [hotspotC] \<and>
   intensity hotspotA = 2 \<and> radius hotspotA = 4000 \<and>
   intensity hotspotC = 6 \<and> radius hotspotC = 10000 \<and>
   intensity hotspotA \<le> intensity hotspotC \<and> radius hotspotA \<le> radius hotspotC"
proof -
  have i: "intensity hotspotA = 2 \<and> intensity hotspotC = 6 \<and> intensity hotspotA \<le> intensity hotspotC"
    by (simp add: hotspotA_def hotspotC_def)
  from radius_capped_and_monotone [of scenarioA scenarioC] i
  have "radius hotspotA = 4000 \<and> radius hotspotC = 10000 \<and> radius hotspotA \<le> radius hotspotC"
    by (simp add: newHotspots_scenarioA newHotspots_scenarioC)
  with i newHotspots_scenarioA newHotspots_scenarioC show ?thesis by blast
qed

section \<open>Assignment of reports to cells\<close>

lemma floored_scenarioRounded:
  "dmul (dfloor (ddiv (lat (location (sampleReport (D 8.1) (D 77.55) High))) gridSize)) gridSize = 8"
  "dmul (dfloor (ddiv (lat (location (sampleReport (D 8.05) (D 77.56) Low))) gridSize)) gridSize = 8"
  "dmul (dfloor (ddiv (lng (location (sampleReport (D 8.1) (D 77.55) High))) gridSize)) gridSize =
     D 77.5"
  "dmul (dfloor (ddiv (lng (location (sampleReport (D 8.05) (D 77.56) Low))) gridSize)) gridSize =
     D 77.5"
  "dmul (dfloor (ddiv (lat (location (sampleReport (D 8.15) (D 77.56) Low))) gridSize)) gridSize =
     D 8.1"
  by (simp_all add: sampleReport_def cell_evals cong: D_cong)

text \<open>
  C5. The first loop never fails. In the grid it builds, every report lies in the cell stored
  under the key of its two floored coordinates, computed in double precision as
  \<^verbatim>\<open>Math.floor(lat / gridSize) * gridSize\<close> and the same for the longitude, and in no other
  cell; two reports of the input lie in a common cell if and only if their floored latitudes
  are equal and their floored longitudes are equal.
\<close>

theorem report_cell_assignment:
  "\<exists>grid. forEachReport [] reports = Inr grid \<and> distinct (map fst grid) \<and>
     (\<forall>r\<in>set reports. \<exists>cell.
        map_of grid (dmul (dfloor (ddiv (lat (location r)) gridSize)) gridSize,
                     dmul (dfloor (ddiv (lng (location r)) gridSize)) gridSize) = Some cell \<and>
        r \<in> set (cell_reports cell)) \<and>
     (\<forall>(k, cell)\<in>set grid. \<forall>r\<in>set (cell_reports cell).
        r \<in> set reports \<and>
        k = (dmul (dfloor (ddiv (lat (location r)) gridSize)) gridSize,
             dmul (dfloor (ddiv (lng (location r)) gridSize)) gridSize)) \<and>
     (\<forall>r1\<in>set reports. \<forall>r2\<in>set reports.
        (\<exists>(k, cell)\<in>set grid. r1 \<in> set (cell_reports cell) \<and> r2 \<in> set (cell_reports cell)) \<longleftrightarrow>
        (dmul (dfloor (ddiv (lat (location r1)) gridSize)) gridSize =
           dmul (dfloor (ddiv (lat (location r2)) gridSize)) gridSize \<and>
         dmul (dfloor (ddiv (lng (location r1)) gridSize)) gridSize =
           dmul (dfloor (ddiv (lng (location r2)) gridSize)) gridSize))"
proof -
  obtain ks where d: "distinct ks" and s: "set ks = cellKey ` set reports"
    and g: "forEachReport [] reports = Inr (gridFor reports ks)"
    using forEachReport_empty by blast
  let ?grid = "gridFor reports ks"
  have key: "(dmul (dfloor (ddiv (lat (location r)) gridSize)) gridSize,
              dmul (dfloor (ddiv (lng (location r)) gridSize)) gridSize) = cellKey r" for r
    by (simp add: cellKey_def gridLat_def gridLng_def)
  have keys: "map fst ?grid = ks"
    by (simp add: gridFor_def o_def)
  have mem: "(k, cell) \<in> set ?grid \<longleftrightarrow> k \<in> set ks \<and> cell = cellFor reports k" for k cell
    by (auto simp: gridFor_def)
  have inside: "r \<in> set (cell_reports (cellFor reports k)) \<longleftrightarrow> r \<in> set reports \<and> cellKey r = k"
    for r k
    by (auto simp: cellFor_def cellReports_def)
  have 1: "\<exists>cell. map_of ?grid (cellKey r) = Some cell \<and> r \<in> set (cell_reports cell)"
    if "r \<in> set reports" for r
    using that s by (simp add: gridFor_def map_of_tabulate inside)
  have 2: "\<forall>(k, cell)\<in>set ?grid. \<forall>r\<in>set (cell_reports cell). r \<in> set reports \<and> k = cellKey r"
    by (auto simp: mem inside)
  have 3: "(\<exists>(k, cell)\<in>set ?grid. r1 \<in> set (cell_reports cell) \<and> r2 \<in> set (cell_reports cell)) \<longleftrightarrow>
        cellKey r1 = cellKey r2"
    if "r1 \<in> set reports" "r2 \<in> set reports" for r1 r2
  proof
    assume "\<exists>(k, cell)\<in>set ?grid. r1 \<in> set (cell_reports cell) \<and> r2 \<in> set (cell_reports cell)"
    then show "cellKey r1 = cellKey r2"
      by (auto simp: mem inside)
  next
    assume e: "cellKey r1 = cellKey r2"
    have "(cellKey r1, cellFor reports (cellKey r1)) \<in> set ?grid"
      using that(1) s by (simp add: mem)
    moreover have "r1 \<in> set (cell_reports (cellFor reports (cellKey r1)))"
      "r2 \<in> set (cell_reports (cellFor reports (cellKey r1)))"
      using that e by (simp_all add: inside)
    ultimately show "\<exists>(k, cell)\<in>set ?grid. r1 \<in> set (cell_reports cell) \<and> r2 \<in> set (cell_reports cell)"
      by blast
  qed
  have 4: "(\<exists>(k, cell)\<in>set ?grid. r1 \<in> set (cell_reports cell) \<and> r2 \<in> set (cell_reports cell)) \<longleftrightarrow>
        (dmul (dfloor (ddiv (lat (location r1)) gridSize)) gridSize =
           dmul (dfloor (ddiv (lat (location r2)) gridSize)) gridSize \<and>
         dmul (dfloor (ddiv (lng (location r1)) gridSize)) gridSize =
           dmul (dfloor (ddiv (lng (location r2)) gridSize)) gridSize)"
    if "r1 \<in> set reports" "r2 \<in> set reports" for r1 r2
    using 3 [OF that] by (simp add: cellKey_def gridLat_def gridLng_def)
  show ?thesis
    unfolding key
    using g d 1 2 4 by (intro exI [of _ ?grid]) (simp add: keys key del: split_paired_All)
qed

theorem report_cell_assignment_witness:
  "forEachReport [] scenarioRounded = Inr gridRounded \<and>
   sampleReport (D 8.1) (D 77.55) High \<in> set scenarioRounded \<and>
   sampleReport (D 8.05) (D 77.56) Low \<in> set scenarioRounded \<and>
   lat (location (sampleReport (D 8.1) (D 77.55) High)) \<noteq>
     lat (location (sampleReport (D 8.05) (D 77.56) Low)) \<and>
   dmul (dfloor (ddiv (lat (location (sampleReport (D 8.1) (D 77.55) High))) gridSize)) gridSize = 8 \<and>
   dmul (dfloor (ddiv (lat (location (sampleReport (D 8.05) (D 77.56) Low))) gridSize)) gridSize = 8 \<and>
   dmul (dfloor (ddiv (lng (location (sampleReport (D 8.1) (D 77.55) High))) gridSize)) gridSize =
     D 77.5 \<and>
   dmul (dfloor (ddiv (lng (location (sampleReport (D 8.05) (D 77.56) Low))) gridSize)) gridSize =
     D 77.5 \<and>
   (\<exists>(k, cell)\<in>set gridRounded.
      sampleReport (D 8.1) (D 77.55) High \<in> set (cell_reports cell) \<and>
      sampleReport (D 8.05) (D 77.56) Low \<in> set (cell_reports cell)) \<and>
   dmul (dfloor (ddiv (lat (location (sampleReport (D 8.15) (D 77.56) Low))) gridSize)) gridSize =
     D 8.1"
proof -
  let ?r1 = "sampleReport (D 8.1) (D 77.55) High" and ?r2 = "sampleReport (D 8.05) (D 77.56) Low"
  have m: "?r1 \<in> set scenarioRounded" "?r2 \<in> set scenarioRounded"
    by (simp_all add: scenarioRounded_def)
  note f = floored_scenarioRounded
  have n: "lat (location ?r1) \<noteq> lat (location ?r2)"
    by (simp add: sampleReport_def D_def rnd_at [where k = 3] roundTiesToEven_def)
  from report_cell_assignment [of scenarioRounded] obtain grid where
    g: "forEachReport [] scenarioRounded = Inr grid" and
    e: "\<forall>r1\<in>set scenarioRounded. \<forall>r2\<in>set scenarioRounded.
        (\<exists>(k, cell)\<in>set grid. r1 \<in> set (cell_reports cell) \<and> r2 \<in> set (cell_reports cell)) \<longleftrightarrow>
        (dmul (dfloor (ddiv (lat (location r1)) gridSize)) gridSize =
           dmul (dfloor (ddiv (lat (location r2)) gridSize)) gridSize \<and>
         dmul (dfloor (ddiv (lng (location r1)) gridSize)) gridSize =
           dmul (dfloor (ddiv (lng (location r2)) gridSize)) gridSize)"
    by blast
  from g have grid: "grid = gridRounded"
    unfolding forEachReport_scenarioRounded by simp
  from e [rule_format, OF m]
  have "(\<exists>(k, cell)\<in>set grid. ?r1 \<in> set (cell_reports cell) \<and> ?r2 \<in> set (cell_reports cell)) \<longleftrightarrow>
        (dmul (dfloor (ddiv (lat (location ?r1)) gridSize)) gridSize =
           dmul (dfloor (ddiv (lat (location ?r2)) gridSize)) gridSize \<and>
         dmul (dfloor (ddiv (lng (location ?r1)) gridSize)) gridSize =
           dmul (dfloor (ddiv (lng (location ?r2)) gridSize)) gridSize)"
    .
  then have "\<exists>(k, cell)\<in>set grid. ?r1 \<in> set (cell_reports cell) \<and> ?r2 \<in> set (cell_reports cell)"
    unfolding f(1-4) by (rule iffD2) simp
  then have x: "\<exists>(k, cell)\<in>set gridRounded.
      ?r1 \<in> set (cell_reports cell) \<and> ?r2 \<in> set (cell_reports cell)"
    unfolding grid .
  from forEachReport_scenarioRounded m n f(1-4) x f(5) show ?thesis
    by - (intro conjI; assumption)
qed

section \<open>Centre of a hotspot\<close>

lemma centre_not_centroid_scenarioA: "hotspot_lat hotspotA \<noteq> fst (centroid scenarioA)"
  by (simp add: hotspotA_def centroid_def scenarioA_def sampleReport_def D_def
      rnd_at [where k = 3] roundTiesToEven_def)

text \<open>
  C6. The centre of every emitted hotspot is the centre of the cell that produced it: each
  floored coordinate of a report of that cell plus half the grid size, in double precision.
  It is not the centroid of the contributing reports: there is an input whose only hotspot
  counts all its reports and is not centred at their centroid.
\<close>

theorem hotspot_center_is_cell_center:
  "(\<exists>hs. newHotspots reports = Inr hs \<and>
     (\<forall>h\<in>set hs. \<exists>r\<in>set reports.
        hotspot_lat h =
          dadd (dmul (dfloor (ddiv (lat (location r)) gridSize)) gridSize) (ddiv gridSize 2) \<and>
        hotspot_lng h =
          dadd (dmul (dfloor (ddiv (lng (location r)) gridSize)) gridSize) (ddiv gridSize 2) \<and>
        intensity h = length (cellReports reports (cellKey r)))) \<and>
   (\<exists>rs h. newHotspots rs = Inr [h] \<and> intensity h = length rs \<and>
      (hotspot_lat h, hotspot_lng h) \<noteq> centroid rs)"
proof
  obtain ks where s: "set ks = cellKey ` set reports"
    and n: "newHotspots reports =
          Inr (map (hotspotFor reports)
                 (filter (\<lambda>k. minReports \<le> length (cellReports reports k)) ks))"
    using newHotspots_char by blast
  have "\<exists>r\<in>set reports.
        hotspot_lat (hotspotFor reports k) =
          dadd (dmul (dfloor (ddiv (lat (location r)) gridSize)) gridSize) (ddiv gridSize 2) \<and>
        hotspot_lng (hotspotFor reports k) =
          dadd (dmul (dfloor (ddiv (lng (location r)) gridSize)) gridSize) (ddiv gridSize 2) \<and>
        intensity (hotspotFor reports k) = length (cellReports reports (cellKey r))"
    if "k \<in> set ks" for k
  proof -
    from that s obtain r where "r \<in> set reports" "k = cellKey r" by auto
    then show ?thesis
      by (intro bexI [of _ r]) (simp_all add: hotspotFor_def cellKey_def gridLat_def gridLng_def)
  qed
  with n show "\<exists>hs. newHotspots reports = Inr hs \<and>
     (\<forall>h\<in>set hs. \<exists>r\<in>set reports.
        hotspot_lat h =
          dadd (dmul (dfloor (ddiv (lat (location r)) gridSize)) gridSize) (ddiv gridSize 2) \<and>
        hotspot_lng h =
          dadd (dmul (dfloor (ddiv (lng (location r)) gridSize)) gridSize) (ddiv gridSize 2) \<and>
        intensity h = length (cellReports reports (cellKey r)))"
    by auto
next
  have "(hotspot_lat hotspotA, hotspot_lng hotspotA) \<noteq> centroid scenarioA"
    using centre_not_centroid_scenarioA by (cases "centroid scenarioA") auto
  moreover have "intensity hotspotA = length scenarioA"
    by (simp add: hotspotA_def length_scenarioA)
  ultimately show "\<exists>rs h. newHotspots rs = Inr [h] \<and> intensity h = length rs \<and>
      (hotspot_lat h, hotspot_lng h) \<noteq> centroid rs"
    using newHotspots_scenarioA by blast
qed

theorem hotspot_center_is_cell_center_witness:
  "newHotspots scenarioRounded = Inr [hotspotRounded] \<and>
   (\<exists>r\<in>set scenarioRounded.
      hotspot_lat hotspotRounded =
        dadd (dmul (dfloor (ddiv (lat (location r)) gridSize)) gridSize) (ddiv gridSize 2) \<and>
      hotspot_lng hotspotRounded =
        dadd (dmul (dfloor (ddiv (lng (location r)) gridSize)) gridSize) (ddiv gridSize 2)) \<and>
   (hotspot_lat hotspotRounded, hotspot_lng hotspotRounded) = (D 8.05, D 77.55) \<and>
   dadd (dmul (dfloor (ddiv (D 8.1) gridSize)) gridSize) (ddiv gridSize 2) = D 8.05 \<and>
   dadd (dmul (dfloor (ddiv (D 12.95) gridSize)) gridSize) (ddiv gridSize 2) =
     D 12.950000000000001 \<and>
   centroid scenarioA = ((D 12.95 + D 12.96) / 2, (D 77.55 + D 77.56) / 2)"
proof -
  have c: "centroid scenarioA = ((D 12.95 + D 12.96) / 2, (D 77.55 + D 77.56) / 2)"
    by (simp add: centroid_def scenarioA_def sampleReport_def cong: D_cong)
  have h: "(hotspot_lat hotspotRounded, hotspot_lng hotspotRounded) = (D 8.05, D 77.55)"
    by (simp add: hotspotRounded_def cong: D_cong)
  have e: "dadd (dmul (dfloor (ddiv (D 8.1) gridSize)) gridSize) (ddiv gridSize 2) = D 8.05"
    "dadd (dmul (dfloor (ddiv (D 12.95) gridSize)) gridSize) (ddiv gridSize 2) =
       D 12.950000000000001"
    by (simp_all add: cell_evals cong: D_cong)
  from hotspot_center_is_cell_center [of scenarioRounded]
  have x: "\<exists>r\<in>set scenarioRounded.
      hotspot_lat hotspotRounded =
        dadd (dmul (dfloor (ddiv (lat (location r)) gridSize)) gridSize) (ddiv gridSize 2) \<and>
      hotspot_lng hotspotRounded =
        dadd (dmul (dfloor (ddiv (lng (location r)) gridSize)) gridSize) (ddiv gridSize 2)"
    unfolding newHotspots_scenarioRounded by auto
  from newHotspots_scenarioRounded x h e c show ?thesis
    by - (intro conjI; assumption)
qed

section \<open>Lookup of a hotspot near a report\<close>

text \<open>
  C7. For every report and every list of hotspots, \<^verbatim>\<open>nearbyHotspot\<close> is none exactly when
  no hotspot has a distance below 0.05 from the report, and it is a hotspot \<open>h\<close> exactly
  when \<open>h\<close> is the first element of the list with a distance below 0.05. The distance is
  the Euclidean distance in degrees as the code computes it in double precision. The first
  such hotspot need not be the closest one.
\<close>

theorem nearbyHotspot_first_within_threshold:
  "(nearbyHotspot hs p = None \<longleftrightarrow>
      (\<forall>h\<in>set hs. \<not> dsqrt (dadd (dpow (dsub (hotspot_lat h) (lat (location p))) 2)
                                 (dpow (dsub (hotspot_lng h) (lng (location p))) 2)) < D 0.05)) \<and>
   (\<forall>h. nearbyHotspot hs p = Some h \<longleftrightarrow>
      (\<exists>i<length hs. hs ! i = h \<and>
         dsqrt (dadd (dpow (dsub (hotspot_lat h) (lat (location p))) 2)
                     (dpow (dsub (hotspot_lng h) (lng (location p))) 2)) < D 0.05 \<and>
         (\<forall>j<i. \<not> dsqrt (dadd (dpow (dsub (hotspot_lat (hs ! j)) (lat (location p))) 2)
                               (dpow (dsub (hotspot_lng (hs ! j)) (lng (location p))) 2))
                    < D 0.05))) \<and>
   (\<exists>hs' p' h h'. nearbyHotspot hs' p' = Some h \<and> h' \<in> set hs' \<and>
      distance h' p' < distance h p')"
proof (intro conjI allI)
  show "nearbyHotspot hs p = None \<longleftrightarrow>
      (\<forall>h\<in>set hs. \<not> dsqrt (dadd (dpow (dsub (hotspot_lat h) (lat (location p))) 2)
                                 (dpow (dsub (hotspot_lng h) (lng (location p))) 2)) < D 0.05)"
    unfolding nearbyHotspot_def distance_def find_None_iff by blast
next
  fix h
  show "nearbyHotspot hs p = Some h \<longleftrightarrow>
      (\<exists>i<length hs. hs ! i = h \<and>
         dsqrt (dadd (dpow (dsub (hotspot_lat h) (lat (location p))) 2)
                     (dpow (dsub (hotspot_lng h) (lng (location p))) 2)) < D 0.05 \<and>
         (\<forall>j<i. \<not> dsqrt (dadd (dpow (dsub (hotspot_lat (hs ! j)) (lat (location p))) 2)
                               (dpow (dsub (hotspot_lng (hs ! j)) (lng (location p))) 2))
                    < D 0.05))"
    unfolding nearbyHotspot_def distance_def find_Some_iff by blast
next
  let ?hs = "[hotspotAt (D 0.03125) 0, hotspotAt (D 0.015625) 0]" and ?p = "sampleReport 0 0 Low"
  have "nearbyHotspot ?hs ?p = Some (hotspotAt (D 0.03125) 0)"
    by (simp add: nearbyHotspot_def distance_on_meridian distance_evals cong: D_cong)
  moreover have "hotspotAt (D 0.015625) 0 \<in> set ?hs"
    by simp
  moreover have "distance (hotspotAt (D 0.015625) 0) ?p < distance (hotspotAt (D 0.03125) 0) ?p"
    by (simp add: distance_on_meridian distance_evals cong: D_cong)
  ultimately show "\<exists>hs' p' h h'. nearbyHotspot hs' p' = Some h \<and> h' \<in> set hs' \<and>
      distance h' p' < distance h p'"
    by blast
qed

theorem nearbyHotspot_first_within_threshold_witness:
  "nearbyHotspot [hotspotAt 1 0, hotspotAt (D 0.03125) 0, hotspotAt (D 0.015625) 0]
     (sampleReport 0 0 Low) = Some (hotspotAt (D 0.03125) 0) \<and>
   (\<exists>i<length [hotspotAt 1 0, hotspotAt (D 0.03125) 0, hotspotAt (D 0.015625) 0].
      [hotspotAt 1 0, hotspotAt (D 0.03125) 0, hotspotAt (D 0.015625) 0] ! i =
        hotspotAt (D 0.03125) 0 \<and>
      (\<forall>j<i. \<not> distance ([hotspotAt 1 0, hotspotAt (D 0.03125) 0, hotspotAt (D 0.015625) 0] ! j)
                   (sampleReport 0 0 Low) < D 0.05)) \<and>
   nearbyHotspot [hotspotAt 1 0] (sampleReport 0 0 Low) = None \<and>
   distance (hotspotAt (D 12.95) (D 77.55)) (sampleReport (D 12.95) (D 77.6) Low) =
     D 0.04999999999999716 \<and>
   D 0.04999999999999716 < D 0.05 \<and>
   nearbyHotspot [hotspotAt (D 12.95) (D 77.55)] (sampleReport (D 12.95) (D 77.6) Low) =
     Some (hotspotAt (D 12.95) (D 77.55))"
proof -
  let ?hs = "[hotspotAt 1 0, hotspotAt (D 0.03125) 0, hotspotAt (D 0.015625) 0]"
    and ?p = "sampleReport 0 0 Low"
  let ?h = "hotspotAt (D 12.95) (D 77.55)" and ?q = "sampleReport (D 12.95) (D 77.6) Low"
  note t = nearbyHotspot_first_within_threshold
  have a: "nearbyHotspot ?hs ?p = Some (hotspotAt (D 0.03125) 0)"
    by (simp add: nearbyHotspot_def distance_on_meridian distance_evals cong: D_cong)
  have "\<forall>h\<in>set [hotspotAt 1 0].
          \<not> dsqrt (dadd (dpow (dsub (hotspot_lat h) (lat (location ?p))) 2)
                         (dpow (dsub (hotspot_lng h) (lng (location ?p))) 2)) < D 0.05"
    using distance_on_meridian(1) by (simp add: distance_def distance_evals cong: D_cong)
  with t [of "[hotspotAt 1 0]" ?p]
  have b: "nearbyHotspot [hotspotAt 1 0] ?p = None"
    by blast
  from t [of ?hs ?p] a
  have c: "\<exists>i<length ?hs. ?hs ! i = hotspotAt (D 0.03125) 0 \<and>
      (\<forall>j<i. \<not> distance (?hs ! j) ?p < D 0.05)"
    unfolding distance_def by blast
  have d: "distance ?h ?q = D 0.04999999999999716"
    by (rule distance_at_threshold)
  have l: "D 0.04999999999999716 < D 0.05"
    by (simp add: distance_evals cong: D_cong)
  have "\<exists>i<length [?h]. [?h] ! i = ?h \<and>
         dsqrt (dadd (dpow (dsub (hotspot_lat ?h) (lat (location ?q))) 2)
                     (dpow (dsub (hotspot_lng ?h) (lng (location ?q))) 2)) < D 0.05 \<and>
         (\<forall>j<i. \<not> dsqrt (dadd (dpow (dsub (hotspot_lat ([?h] ! j)) (lat (location ?q))) 2)
                               (dpow (dsub (hotspot_lng ([?h] ! j)) (lng (location ?q))) 2))
                    < D 0.05)"
    using d l by (intro exI [of _ 0]) (simp add: distance_def)
  with t [of "[?h]" ?q] have e: "nearbyHotspot [?h] ?q = Some ?h"
    by blast
  from a c b d l e show ?thesis
    by - (intro conjI; assumption)
qed

section \<open>Independence of the order of the reports\<close>

lemma length_cellReports_mset:
  "length (cellReports reports k) = size (filter_mset (\<lambda>r. cellKey r = k) (mset reports))"
  by (simp add: cellReports_def flip: mset_filter)

lemma hotspotFor_mset:
  assumes "mset reports = mset reports'"
  shows "hotspotFor reports k = hotspotFor reports' k"
  using assms by (simp add: hotspotFor_def length_cellReports_mset)

lemma newHotspots_mset:
  assumes "mset reports = mset reports'"
  shows "\<exists>hs hs'. newHotspots reports = Inr hs \<and> newHotspots reports' = Inr hs' \<and>
           mset hs = mset hs'"
proof -
  obtain ks where d: "distinct ks" and s: "set ks = cellKey ` set reports"
    and n: "newHotspots reports =
          Inr (map (hotspotFor reports)
                 (filter (\<lambda>k. minReports \<le> length (cellReports reports k)) ks))"
    using newHotspots_char by blast
  obtain ks' where d': "distinct ks'" and s': "set ks' = cellKey ` set reports'"
    and n': "newHotspots reports' =
          Inr (map (hotspotFor reports')
                 (filter (\<lambda>k. minReports \<le> length (cellReports reports' k)) ks'))"
    using newHotspots_char by blast
  have "set reports = set reports'"
    using assms by (rule mset_eq_setD)
  with s s' have "set ks = set ks'" by simp
  with d d' have m: "mset ks = mset ks'"
    by (simp add: set_eq_iff_mset_eq_distinct)
  have f: "hotspotFor reports = hotspotFor reports'"
    using hotspotFor_mset [OF assms] by (rule ext)
  have q: "(\<lambda>k. minReports \<le> length (cellReports reports k)) =
           (\<lambda>k. minReports \<le> length (cellReports reports' k))"
    using assms by (simp add: length_cellReports_mset)
  have "mset (map (hotspotFor reports)
                 (filter (\<lambda>k. minReports \<le> length (cellReports reports k)) ks)) =
        image_mset (hotspotFor reports)
          (filter_mset (\<lambda>k. minReports \<le> length (cellReports reports k)) (mset ks))"
    by simp
  also have "\<dots> = image_mset (hotspotFor reports')
          (filter_mset (\<lambda>k. minReports \<le> length (cellReports reports' k)) (mset ks'))"
    unfolding f q m ..
  also have "\<dots> = mset (map (hotspotFor reports')
                 (filter (\<lambda>k. minReports \<le> length (cellReports reports' k)) ks'))"
    by simp
  finally show ?thesis
    using n n' by blast
qed

text \<open>
  C8. For every report collection and every permutation of it, the hotspots computed from
  the two are equal as multisets, and so are the hotspot lists stored by
  \<^verbatim>\<open>calculateHotspots\<close> when it is run on the two from the same state. A second call on
  the same collection leaves the state of the first call as it is.
\<close>

theorem hotspots_independent_of_report_order:
  assumes "mset reports = mset reports'"
  shows "(\<exists>hs hs'. newHotspots reports = Inr hs \<and> newHotspots reports' = Inr hs' \<and>
            mset hs = mset hs') \<and>
         (\<exists>st1 st2. calculateHotspots reports st = Inr st1 \<and>
            calculateHotspots reports' st = Inr st2 \<and>
            mset (hotspots st1) = mset (hotspots st2) \<and>
            selectedReport st1 = selectedReport st2 \<and>
            calculateHotspots reports st1 = Inr st1)"
proof
  from newHotspots_mset [OF assms] obtain hs hs' where
    n: "newHotspots reports = Inr hs" "newHotspots reports' = Inr hs'" and m: "mset hs = mset hs'"
    by blast
  then show "\<exists>hs hs'. newHotspots reports = Inr hs \<and> newHotspots reports' = Inr hs' \<and>
            mset hs = mset hs'"
    by blast
  show "\<exists>st1 st2. calculateHotspots reports st = Inr st1 \<and>
            calculateHotspots reports' st = Inr st2 \<and>
            mset (hotspots st1) = mset (hotspots st2) \<and>
            selectedReport st1 = selectedReport st2 \<and>
            calculateHotspots reports st1 = Inr st1"
  proof (cases "reports = []")
    case True
    with assms have "reports' = []" by simp
    with True show ?thesis
      by (simp add: calculateHotspots_def)
  next
    case False
    with assms have "reports' \<noteq> []" by auto
    with False n m show ?thesis
      by (simp add: calculateHotspots_def setHotspots_def)
  qed
qed

theorem hotspots_independent_of_report_order_witness:
  "mset scenarioTwoCells = mset scenarioTwoCellsShuffled \<and>
   newHotspots scenarioTwoCells = Inr [hotspotA, hotspotB] \<and>
   newHotspots scenarioTwoCellsShuffled = Inr [hotspotB, hotspotA] \<and>
   mset [hotspotA, hotspotB] = mset [hotspotB, hotspotA] \<and>
   [hotspotA, hotspotB] \<noteq> [hotspotB, hotspotA]"
proof -
  have p: "mset scenarioTwoCells = mset scenarioTwoCellsShuffled"
    by (simp add: scenarioTwoCells_def scenarioTwoCellsShuffled_def add.commute cong: D_cong)
  from hotspots_independent_of_report_order [OF p]
  have "mset [hotspotA, hotspotB] = mset [hotspotB, hotspotA]"
    unfolding newHotspots_scenarioTwoCells newHotspots_scenarioTwoCellsShuffled by blast
  moreover have "[hotspotA, hotspotB] \<noteq> [hotspotB, hotspotA]"
    by (simp add: hotspotA_def hotspotB_def cell_evals cong: D_cong)
  ultimately show ?thesis
    using p newHotspots_scenarioTwoCells newHotspots_scenarioTwoCellsShuffled by blast
qed

section \<open>Absence of errors\<close>

lemma scenarioA_inDataModelRange: "\<forall>r\<in>set scenarioA. inDataModelRange (location r)"
  by (simp add: scenarioA_def sampleReport_def inDataModelRange_def D_def
      rnd_at [where k = 3] rnd_at [where k = 6] roundTiesToEven_def)

text \<open>
  C9. For every input whose report coordinates lie in the ranges of the data model, neither
  loop of \<^verbatim>\<open>calculateHotspots\<close> raises an error and the call returns a state; the
  lookup \<^verbatim>\<open>nearbyHotspot\<close> returns none or one of the hotspots it was given.
\<close>

theorem no_error_on_valid_input:
  assumes "\<forall>r\<in>set reports. inDataModelRange (location r)"
  shows "(\<exists>grid. forEachReport [] reports = Inr grid) \<and>
         (\<exists>hs. newHotspots reports = Inr hs) \<and>
         (\<exists>st'. calculateHotspots reports st = Inr st') \<and>
         (nearbyHotspot hs p = None \<or> (\<exists>h\<in>set hs. nearbyHotspot hs p = Some h))"
proof (intro conjI)
  show "\<exists>grid. forEachReport [] reports = Inr grid"
    using forEachReport_empty by blast
  show "\<exists>hs. newHotspots reports = Inr hs"
    by (rule newHotspots_total)
  then show "\<exists>st'. calculateHotspots reports st = Inr st'"
    by (auto simp: calculateHotspots_def)
  show "nearbyHotspot hs p = None \<or> (\<exists>h\<in>set hs. nearbyHotspot hs p = Some h)"
  proof (cases "nearbyHotspot hs p")
    case None
    then show ?thesis by simp
  next
    case (Some h)
    then have "h \<in> set hs"
      unfolding nearbyHotspot_def find_Some_iff by auto
    with Some show ?thesis by simp
  qed
qed

theorem no_error_on_valid_input_witness:
  "list_all (\<lambda>r. inDataModelRange (location r)) scenarioA \<and>
   (\<exists>st'. calculateHotspots scenarioA initialState = Inr st') \<and>
   (nearbyHotspot [hotspotA] (sampleReport (D 12.96) (D 77.56) Low) = None \<or>
    (\<exists>h\<in>set [hotspotA].
       nearbyHotspot [hotspotA] (sampleReport (D 12.96) (D 77.56) Low) = Some h)) \<and>
   calculateHotspots scenarioA initialState = Inr \<lparr>hotspots = [hotspotA], selectedReport = None\<rparr> \<and>
   nearbyHotspot [hotspotA] (sampleReport (D 12.96) (D 77.56) Low) = Some hotspotA"
proof -
  note v = scenarioA_inDataModelRange
  note t = no_error_on_valid_input
    [OF v, of initialState "[hotspotA]" "sampleReport (D 12.96) (D 77.56) Low"]
  have t1: "\<exists>st'. calculateHotspots scenarioA initialState = Inr st'"
    using t by (elim conjE)
  have t2: "nearbyHotspot [hotspotA] (sampleReport (D 12.96) (D 77.56) Low) = None \<or>
    (\<exists>h\<in>set [hotspotA].
       nearbyHotspot [hotspotA] (sampleReport (D 12.96) (D 77.56) Low) = Some h)"
    using t by (elim conjE)
  have c: "calculateHotspots scenarioA initialState =
             Inr \<lparr>hotspots = [hotspotA], selectedReport = None\<rparr>"
    by (simp add: calculateHotspots_def length_scenarioA newHotspots_scenarioA setHotspots_def
        initialState_def)
  have n: "nearbyHotspot [hotspotA] (sampleReport (D 12.96) (D 77.56) Low) = Some hotspotA"
    by (simp add: nearbyHotspot_def distance_hotspotA distance_evals cong: D_cong)
  have w: "list_all (\<lambda>r. inDataModelRange (location r)) scenarioA"
    using v by (simp add: list_all_iff)
  from w t1 t2 c n show ?thesis
    by - (intro conjI; assumption)
qed

end
